theory Spec2Isabelle
  imports Main "HOL-Library.AList" "HOL-Library.Sublist" "HOL-Library.Word"
begin

unbundle bit_operations_syntax

section \<open>Python values, strings and dictionaries\<close>

text \<open>
  A character is a code point below 256 (ASCII and Latin-1), a string a list of them.
  A configuration value is a string (what the command line gives), a boolean (what the
  installer itself writes back) or \<open>None\<close>.
\<close>

datatype pyval = PStr string | PBool bool | PNone

text \<open>\<open>str.lower\<close> on one character: \<open>A\<close>-\<open>Z\<close> and the Latin-1 capitals move by 32.\<close>

definition lower_char :: "char \<Rightarrow> char" where
  "lower_char c =
     (let n = (of_char c :: nat)
      in if (65 \<le> n \<and> n \<le> 90) \<or> (192 \<le> n \<and> n \<le> 214) \<or> (216 \<le> n \<and> n \<le> 222)
         then char_of (n + 32) else c)"

definition lower :: "string \<Rightarrow> string" where
  "lower s = map lower_char s"

text \<open>\<open>str.isalnum\<close> on one character.\<close>

definition isalnum :: "char \<Rightarrow> bool" where
  "isalnum c =
     (let n = (of_char c :: nat)
      in (48 \<le> n \<and> n \<le> 57) \<or> (65 \<le> n \<and> n \<le> 90) \<or> (97 \<le> n \<and> n \<le> 122)
         \<or> n = 170 \<or> n = 178 \<or> n = 179 \<or> n = 181 \<or> n = 185 \<or> n = 186
         \<or> (188 \<le> n \<and> n \<le> 190) \<or> (192 \<le> n \<and> n \<le> 214)
         \<or> (216 \<le> n \<and> n \<le> 246) \<or> 248 \<le> n)"

text \<open>\<open>str(v)\<close> and the truth value of \<open>v\<close> in a condition.\<close>

fun py_str :: "pyval \<Rightarrow> string" where
  "py_str (PStr s) = s"
| "py_str (PBool True) = ''True''"
| "py_str (PBool False) = ''False''"
| "py_str PNone = ''None''"

fun truthy :: "pyval \<Rightarrow> bool" where
  "truthy (PStr s) = (s \<noteq> [])"
| "truthy (PBool b) = b"
| "truthy PNone = False"

text \<open>\<open>a and b\<close>, \<open>a or b\<close>: Python returns one of the operands.\<close>

definition py_and :: "pyval \<Rightarrow> pyval \<Rightarrow> pyval" where
  "py_and a b = (if truthy a then b else a)"

definition py_or :: "pyval \<Rightarrow> pyval \<Rightarrow> pyval" where
  "py_or a b = (if truthy a then a else b)"

text \<open>
  A dictionary is an association list in insertion order: \<open>map_of\<close> reads a key,
  \<open>AList.update\<close> overwrites it in place or appends it, \<open>AList.delete\<close> removes it.
\<close>

type_synonym config = "(string \<times> pyval) list"

definition has_key :: "('k \<times> 'v) list \<Rightarrow> 'k \<Rightarrow> bool" where
  "has_key d k = (map_of d k \<noteq> None)"

text \<open>\<open>d.get(k)\<close>, which is \<open>None\<close> for a missing key, and \<open>d.get(k, default)\<close>.\<close>

definition dict_get :: "config \<Rightarrow> string \<Rightarrow> pyval" where
  "dict_get d k = (case map_of d k of None \<Rightarrow> PNone | Some v \<Rightarrow> v)"

definition dict_get_default :: "('k \<times> 'v) list \<Rightarrow> 'k \<Rightarrow> 'v \<Rightarrow> 'v" where
  "dict_get_default d k dflt = (case map_of d k of None \<Rightarrow> dflt | Some v \<Rightarrow> v)"

section \<open>The dereference pass\<close>

text \<open>The inner loop of \<open>_dereference\<close>: \<open>output_dict[key] = output_dict.get(key, ref_value)\<close>.\<close>

fun dereference_keys :: "'v \<Rightarrow> 'k list \<Rightarrow> ('k \<times> 'v) list \<Rightarrow> ('k \<times> 'v) list" where
  "dereference_keys ref_value [] output_dict = output_dict"
| "dereference_keys ref_value (key # ref_list) output_dict =
     dereference_keys ref_value ref_list
       (AList.update key (dict_get_default output_dict key ref_value) output_dict)"

text \<open>
  \<open>_dereference\<close>: the entries of the reference mapping in their order; an entry whose
  key is not in the dictionary is skipped. The deep copy is the value returned.
\<close>

fun dereference :: "('k \<times> 'k list) list \<Rightarrow> ('k \<times> 'v) list \<Rightarrow> ('k \<times> 'v) list" where
  "dereference [] output_dict = output_dict"
| "dereference ((ref_key, ref_list) # ref_mapping_dict) output_dict =
     (case map_of output_dict ref_key of
        None \<Rightarrow> dereference ref_mapping_dict output_dict
      | Some ref_value \<Rightarrow>
          dereference ref_mapping_dict (dereference_keys ref_value ref_list output_dict))"

section \<open>Errors\<close>

text \<open>
  What an SDK call, the file system or the confirmation prompt raises, and what the
  extension code raises itself. An exception of the first kind that no handler of the
  code catches leaves the operation as \<open>Propagated\<close>.
\<close>

datatype exn =
    CloudError string
  | HttpResponseError int
  | ErrorResponseException int
  | OtherError string

datatype error =
    InvalidArgumentValueError string
  | MutuallyExclusiveArgumentError string
  | ResourceNotFoundError string
  | AzureResponseError string
  | CLIError string
  | AssertionError string
  | IndexError
  | Propagated exn

section \<open>MD5 (\<open>hashlib.md5\<close>, RFC 1321)\<close>

definition md5_shift :: "nat list" where
  "md5_shift =
     [7, 12, 17, 22, 7, 12, 17, 22, 7, 12, 17, 22, 7, 12, 17, 22,
      5, 9, 14, 20, 5, 9, 14, 20, 5, 9, 14, 20, 5, 9, 14, 20,
      4, 11, 16, 23, 4, 11, 16, 23, 4, 11, 16, 23, 4, 11, 16, 23,
      6, 10, 15, 21, 6, 10, 15, 21, 6, 10, 15, 21, 6, 10, 15, 21]"

definition md5_K :: "32 word list" where
  "md5_K =
     [0xd76aa478, 0xe8c7b756, 0x242070db, 0xc1bdceee, 0xf57c0faf, 0x4787c62a, 0xa8304613, 0xfd469501,
      0x698098d8, 0x8b44f7af, 0xffff5bb1, 0x895cd7be, 0x6b901122, 0xfd987193, 0xa679438e, 0x49b40821,
      0xf61e2562, 0xc040b340, 0x265e5a51, 0xe9b6c7aa, 0xd62f105d, 0x02441453, 0xd8a1e681, 0xe7d3fbc8,
      0x21e1cde6, 0xc33707d6, 0xf4d50d87, 0x455a14ed, 0xa9e3e905, 0xfcefa3f8, 0x676f02d9, 0x8d2a4c8a,
      0xfffa3942, 0x8771f681, 0x6d9d6122, 0xfde5380c, 0xa4beea44, 0x4bdecfa9, 0xf6bb4b60, 0xbebfbc70,
      0x289b7ec6, 0xeaa127fa, 0xd4ef3085, 0x04881d05, 0xd9d4d039, 0xe6db99e5, 0x1fa27cf8, 0xc4ac5665,
      0xf4292244, 0x432aff97, 0xab9423a7, 0xfc93a039, 0x655b59c3, 0x8f0ccc92, 0xffeff47d, 0x85845dd1,
      0x6fa87e4f, 0xfe2ce6e0, 0xa3014314, 0x4e0811a1, 0xf7537e82, 0xbd3af235, 0x2ad7d2bb, 0xeb86d391]"

text \<open>Little-endian bytes of a word, and the word of four little-endian bytes.\<close>

definition le_bytes :: "nat \<Rightarrow> 'a::len word \<Rightarrow> 8 word list" where
  "le_bytes n w = map (\<lambda>j. ucast (drop_bit (8 * j) w)) [0..<n]"

definition le_word :: "8 word list \<Rightarrow> 32 word" where
  "le_word bs = foldr (\<lambda>b w. ucast b OR push_bit 8 w) bs 0"

text \<open>The message, the byte \<open>0x80\<close>, zeros up to 56 modulo 64, the bit length on 64 bits.\<close>

definition md5_pad :: "8 word list \<Rightarrow> 8 word list" where
  "md5_pad msg =
     msg @ [0x80] @ replicate ((119 - length msg mod 64) mod 64) 0
       @ le_bytes 8 (word_of_nat (8 * length msg) :: 64 word)"

definition md5_blocks :: "8 word list \<Rightarrow> 32 word list list" where
  "md5_blocks p =
     map (\<lambda>j. map (\<lambda>i. le_word (take 4 (drop (64 * j + 4 * i) p))) [0..<16])
       [0..<length p div 64]"

type_synonym md5_state = "32 word \<times> 32 word \<times> 32 word \<times> 32 word"

fun md5_round :: "32 word list \<Rightarrow> nat \<Rightarrow> md5_state \<Rightarrow> md5_state" where
  "md5_round M i (A, B, C, D) =
     (let (F, g) =
        (if i < 16 then ((B AND C) OR (NOT B AND D), i)
         else if i < 32 then ((D AND B) OR (NOT D AND C), (5 * i + 1) mod 16)
         else if i < 48 then (B XOR C XOR D, (3 * i + 5) mod 16)
         else (C XOR (B OR NOT D), (7 * i) mod 16));
        F' = F + A + md5_K ! i + M ! g
      in (D, B + word_rotl (md5_shift ! i) F', B, C))"

fun md5_block :: "32 word list \<Rightarrow> md5_state \<Rightarrow> md5_state" where
  "md5_block M (a0, b0, c0, d0) =
     (case fold (md5_round M) [0..<64] (a0, b0, c0, d0) of
        (A, B, C, D) \<Rightarrow> (a0 + A, b0 + B, c0 + C, d0 + D))"

definition md5_digest :: "8 word list \<Rightarrow> 8 word list" where
  "md5_digest msg =
     (case fold md5_block (md5_blocks (md5_pad msg))
             (0x67452301, 0xefcdab89, 0x98badcfe, 0x10325476) of
        (a, b, c, d) \<Rightarrow> le_bytes 4 a @ le_bytes 4 b @ le_bytes 4 c @ le_bytes 4 d)"

definition hex_byte :: "8 word \<Rightarrow> string" where
  "hex_byte b = [''0123456789abcdef'' ! (unat b div 16), ''0123456789abcdef'' ! (unat b mod 16)]"

definition md5_hexdigest :: "8 word list \<Rightarrow> string" where
  "md5_hexdigest msg = concat (map hex_byte (md5_digest msg))"

text \<open>\<open>s.encode("utf8")\<close>: one byte below 128, two bytes from 128 to 255.\<close>

definition encode_utf8 :: "string \<Rightarrow> 8 word list" where
  "encode_utf8 s =
     concat (map (\<lambda>c. let n = (of_char c :: nat)
                       in if n < 128 then [word_of_nat n]
                          else [word_of_nat (192 + n div 64), word_of_nat (128 + n mod 64)]) s)"

section \<open>Resource names\<close>

text \<open>The slice \<open>s[:n]\<close>: a negative \<open>n\<close> counts from the end.\<close>

definition py_prefix :: "int \<Rightarrow> 'a list \<Rightarrow> 'a list" where
  "py_prefix n s = (if 0 \<le> n then take (nat n) s else take (nat (int (length s) + n)) s)"

text \<open>\<open>_get_valid_name\<close>. The \<open>assert\<close> fails on an empty filtered name.\<close>

definition get_valid_name :: "string \<Rightarrow> int \<Rightarrow> int \<Rightarrow> error + string" where
  "get_valid_name input_name suffix_len max_len =
     (let normalized_str = filter isalnum input_name
      in if normalized_str = [] then Inl (AssertionError ''normalized name empty'')
         else if int (length normalized_str) \<le> max_len then Inr normalized_str
         else
           (let suffix_len' = (if suffix_len > max_len then max_len else suffix_len);
                md5_suffix = py_prefix suffix_len' (md5_hexdigest (encode_utf8 input_name))
            in Inr (py_prefix (max_len - suffix_len') normalized_str @ md5_suffix)))"

section \<open>The \<open>--conditions\<close> argument action\<close>

text \<open>\<open>x.split('=', 1)\<close> unpacked into \<open>(k, v)\<close>: no \<open>=\<close> in the token is a ValueError.\<close>

definition split_token :: "string \<Rightarrow> (string \<times> string) option" where
  "split_token x =
     (if CHR ''='' \<in> set x
      then Some (takeWhile (\<lambda>c. c \<noteq> CHR ''='') x, tl (dropWhile (\<lambda>c. c \<noteq> CHR ''='') x))
      else None)"

text \<open>
  The grouping loop, \<open>properties[k].append(v)\<close> on a \<open>defaultdict(list)\<close>; \<open>None\<close> when
  a token raises the ValueError.
\<close>

fun group_tokens ::
  "string list \<Rightarrow> (string \<times> string list) list \<Rightarrow> (string \<times> string list) list option" where
  "group_tokens [] properties = Some properties"
| "group_tokens (x # vals) properties =
     (case split_token x of
        None \<Rightarrow> None
      | Some (k, v) \<Rightarrow>
          group_tokens vals (AList.update k (dict_get_default properties k [] @ [v]) properties))"

text \<open>The value of a key of the record: one string, or the list of all of them.\<close>

datatype cond_val = Single string | Multi "string list"

definition unsupported_key :: "string \<Rightarrow> error" where
  "unsupported_key k =
     CLIError (''Unsupported Key '' @ k @
       '' is provided for parameter conditions. All possible keys are: field, operator, values'')"

text \<open>The projection loop \<open>for k in properties\<close>; \<open>v[0]\<close> of an empty list is an IndexError.\<close>

fun project_conditions ::
  "(string \<times> string list) list \<Rightarrow> (string \<times> string list) list \<Rightarrow>
   (string \<times> cond_val) list \<Rightarrow> error + (string \<times> cond_val) list" where
  "project_conditions properties [] d = Inr d"
| "project_conditions properties ((k, _) # rest) d =
     (let kl = lower k; v = dict_get_default properties k []
      in if kl = ''field'' then
           (case v of [] \<Rightarrow> Inl IndexError
            | v0 # _ \<Rightarrow> project_conditions properties rest (AList.update ''field'' (Single v0) d))
         else if kl = ''operator'' then
           (case v of [] \<Rightarrow> Inl IndexError
            | v0 # _ \<Rightarrow> project_conditions properties rest (AList.update ''operator'' (Single v0) d))
         else if kl = ''values'' then
           project_conditions properties rest (AList.update ''values'' (Multi v) d)
         else Inl (unsupported_key k))"

text \<open>\<open>AddConditions.get_action\<close>.\<close>

definition get_action :: "string list \<Rightarrow> string \<Rightarrow> error + (string \<times> cond_val) list" where
  "get_action vals option_string =
     (case group_tokens vals [] of
        None \<Rightarrow> Inl (CLIError (''usage error: '' @ option_string @ '' [KEY=VALUE ...]''))
      | Some properties \<Rightarrow> project_conditions properties properties [])"

section \<open>Log records, remote calls and results\<close>

text \<open>
  What an operation leaves behind besides its result: the records it logs, the calls it
  makes to a remote service, the files it opens and the confirmation it asks for, in the
  order in which they happen. An operation that fails gives its error and these events;
  what it has written into the caller's maps by then is not part of the result.
\<close>

datatype event =
    Warning string
  | Info string
  | GetById string string
  | LogAnalyticsCall string string string bool
  | RelayCall string string string string bool
  | ServiceBusCall string string string bool
  | OpenFile pyval
  | Prompt string

type_synonym 'a res = "event list \<times> (error + 'a)"

definition ret :: "'a \<Rightarrow> 'a res" where
  "ret x = ([], Inr x)"

definition throw :: "error \<Rightarrow> 'a res" where
  "throw e = ([], Inl e)"

definition emit :: "event \<Rightarrow> unit res" where
  "emit ev = ([ev], Inr ())"

text \<open>Sequencing: an error ends the operation, the events so far are kept.\<close>

definition then_do :: "'a res \<Rightarrow> ('a \<Rightarrow> 'b res) \<Rightarrow> 'b res" where
  "then_do m f =
     (case m of
        (evs, Inl e) \<Rightarrow> (evs, Inl e)
      | (evs, Inr x) \<Rightarrow> (case f x of (evs', r) \<Rightarrow> (evs @ evs', r)))"

text \<open>A call of a collaborator: the event, then what the collaborator answers.\<close>

definition call :: "event \<Rightarrow> exn + 'a \<Rightarrow> 'a res" where
  "call ev answer = ([ev], case answer of Inl x \<Rightarrow> Inl (Propagated x) | Inr y \<Rightarrow> Inr y)"

text \<open>
  The collaborators of the installer, which are not part of this code: the subscription
  of the CLI context, \<open>get_cluster_rp_api_version\<close>, the resource lookup by id (its
  answer is the location of the resource), the three management clients (each helper
  below is one call: the answer stands for everything its SDK calls return or raise;
  Log Analytics answers with the customer id and the primary shared key of the workspace,
  Relay with the primary connection string and the id of the hybrid connection, Service
  Bus with the primary connection string and the id of the namespace), the file system
  and \<open>user_confirmation_factory\<close> (\<open>None\<close>: the operation goes on).
\<close>

record env =
  subscription_id :: string
  cluster_rp_api_version :: "string \<Rightarrow> exn + string \<times> string"
  get_by_id :: "string \<Rightarrow> string \<Rightarrow> exn + string"
  log_analytics :: "string \<Rightarrow> string \<Rightarrow> string \<Rightarrow> bool \<Rightarrow> exn + string \<times> string"
  relay :: "string \<Rightarrow> string \<Rightarrow> string \<Rightarrow> string \<Rightarrow> bool \<Rightarrow> exn + string \<times> string"
  service_bus :: "string \<Rightarrow> string \<Rightarrow> string \<Rightarrow> bool \<Rightarrow> exn + string \<times> string"
  read_file :: "pyval \<Rightarrow> exn + string"
  user_confirmation :: "bool \<Rightarrow> string \<Rightarrow> exn option"

section \<open>Constants of \<open>AzureMLKubernetes.__init__\<close>\<close>

abbreviation DEFAULT_RELEASE_NAMESPACE :: string where
  "DEFAULT_RELEASE_NAMESPACE \<equiv> ''azureml''"
abbreviation RELAY_CONNECTION_STRING_KEY :: string where
  "RELAY_CONNECTION_STRING_KEY \<equiv> ''relayserver.relayConnectionString''"
abbreviation HC_RESOURCE_ID_KEY :: string where
  "HC_RESOURCE_ID_KEY \<equiv> ''relayserver.hybridConnectionResourceID''"
abbreviation RELAY_HC_NAME_KEY :: string where
  "RELAY_HC_NAME_KEY \<equiv> ''relayserver.hybridConnectionName''"
abbreviation SERVICE_BUS_CONNECTION_STRING_KEY :: string where
  "SERVICE_BUS_CONNECTION_STRING_KEY \<equiv> ''servicebus.connectionString''"
abbreviation SERVICE_BUS_RESOURCE_ID_KEY :: string where
  "SERVICE_BUS_RESOURCE_ID_KEY \<equiv> ''servicebus.resourceID''"
abbreviation SERVICE_BUS_TOPIC_SUB_MAPPING_KEY :: string where
  "SERVICE_BUS_TOPIC_SUB_MAPPING_KEY \<equiv> ''servicebus.topicSubMapping''"
abbreviation AZURE_LOG_ANALYTICS_ENABLED_KEY :: string where
  "AZURE_LOG_ANALYTICS_ENABLED_KEY \<equiv> ''azure_log_analytics.enabled''"
abbreviation AZURE_LOG_ANALYTICS_CUSTOMER_ID_KEY :: string where
  "AZURE_LOG_ANALYTICS_CUSTOMER_ID_KEY \<equiv> ''azure_log_analytics.customer_id''"
abbreviation AZURE_LOG_ANALYTICS_CONNECTION_STRING :: string where
  "AZURE_LOG_ANALYTICS_CONNECTION_STRING \<equiv> ''azure_log_analytics.connection_string''"
abbreviation JOB_SCHEDULER_LOCATION_KEY :: string where
  "JOB_SCHEDULER_LOCATION_KEY \<equiv> ''jobSchedulerLocation''"
abbreviation CLUSTER_NAME_FRIENDLY_KEY :: string where
  "CLUSTER_NAME_FRIENDLY_KEY \<equiv> ''cluster_name_friendly''"
abbreviation ENABLE_TRAINING :: string where
  "ENABLE_TRAINING \<equiv> ''enableTraining''"
abbreviation ENABLE_INFERENCE :: string where
  "ENABLE_INFERENCE \<equiv> ''enableInference''"
abbreviation RELAY_SERVER_CONNECTION_STRING :: string where
  "RELAY_SERVER_CONNECTION_STRING \<equiv> ''relayServerConnectionString''"
abbreviation SERVICE_BUS_CONNECTION_STRING :: string where
  "SERVICE_BUS_CONNECTION_STRING \<equiv> ''serviceBusConnectionString''"
abbreviation LOG_ANALYTICS_WS_ENABLED :: string where
  "LOG_ANALYTICS_WS_ENABLED \<equiv> ''logAnalyticsWS''"
abbreviation RELAY_HC_AUTH_NAME :: string where
  "RELAY_HC_AUTH_NAME \<equiv> ''azureml_rw''"
abbreviation SERVICE_BUS_COMPUTE_STATE_TOPIC :: string where
  "SERVICE_BUS_COMPUTE_STATE_TOPIC \<equiv> ''computestate-updatedby-computeprovider''"
abbreviation SERVICE_BUS_COMPUTE_STATE_SUB :: string where
  "SERVICE_BUS_COMPUTE_STATE_SUB \<equiv> ''compute-scheduler-computestate''"
abbreviation SERVICE_BUS_JOB_STATE_TOPIC :: string where
  "SERVICE_BUS_JOB_STATE_TOPIC \<equiv> ''jobstate-updatedby-computeprovider''"
abbreviation SERVICE_BUS_JOB_STATE_SUB :: string where
  "SERVICE_BUS_JOB_STATE_SUB \<equiv> ''compute-scheduler-jobstate''"
abbreviation sslKeyPemFile :: string where
  "sslKeyPemFile \<equiv> ''sslKeyPemFile''"
abbreviation sslCertPemFile :: string where
  "sslCertPemFile \<equiv> ''sslCertPemFile''"
abbreviation allowInsecureConnections :: string where
  "allowInsecureConnections \<equiv> ''allowInsecureConnections''"
abbreviation privateEndpointILB :: string where
  "privateEndpointILB \<equiv> ''privateEndpointILB''"
abbreviation privateEndpointNodeport :: string where
  "privateEndpointNodeport \<equiv> ''privateEndpointNodeport''"
abbreviation inferenceLoadBalancerHA :: string where
  "inferenceLoadBalancerHA \<equiv> ''inferenceLoadBalancerHA''"
abbreviation SSL_SECRET :: string where
  "SSL_SECRET \<equiv> ''sslSecret''"
abbreviation IS_AKS_MIGRATION :: string where
  "IS_AKS_MIGRATION \<equiv> ''isAKSMigration''"
abbreviation installNvidiaDevicePlugin :: string where
  "installNvidiaDevicePlugin \<equiv> ''installNvidiaDevicePlugin''"

definition reference_mapping :: "(string \<times> string list) list" where
  "reference_mapping =
     [(RELAY_SERVER_CONNECTION_STRING, [RELAY_CONNECTION_STRING_KEY]),
      (SERVICE_BUS_CONNECTION_STRING, [SERVICE_BUS_CONNECTION_STRING_KEY]),
      (''cluster_name'', [''clusterId'', ''prometheus.prometheusSpec.externalLabels.cluster_name''])]"

definition sq :: string where
  "sq = [CHR 0x27]"

definition nl :: string where
  "nl = [CHR 0x0A]"

section \<open>Reading the two configuration maps\<close>

text \<open>\<open>_get_value_from_config_protected_config\<close>: the settings first, then the protected settings.\<close>

definition get_value_from_config_protected_config :: "string \<Rightarrow> config \<Rightarrow> config \<Rightarrow> pyval" where
  "get_value_from_config_protected_config key config protected_config =
     (if has_key config key then dict_get config key else dict_get protected_config key)"

text \<open>The test \<open>str(v).lower() == s\<close>.\<close>

definition str_lower_is :: "pyval \<Rightarrow> string \<Rightarrow> bool" where
  "str_lower_is v s = (lower (py_str v) = s)"

text \<open>\<open>_check_nodeselector_existed\<close>: some key of either map contains \<open>nodeSelector\<close>.\<close>

definition check_nodeselector_existed :: "config \<Rightarrow> config \<Rightarrow> bool" where
  "check_nodeselector_existed configuration_settings configuration_protected_settings =
     list_ex (\<lambda>key. sublist ''nodeSelector'' key)
       (map fst configuration_settings @ map fst configuration_protected_settings)"

section \<open>The provisioning helpers\<close>

text \<open>
  Each helper derives the name of its resource with \<open>_get_valid_name\<close> and then talks to
  its management client; with \<open>get_key_only\<close> it only reads the keys, and the id of the
  hybrid connection and the customer id of the workspace stay empty. The name of the
  hybrid connection is the name of the cluster.
\<close>

definition get_relay_connection_str ::
  "env \<Rightarrow> string \<Rightarrow> string \<Rightarrow> string \<Rightarrow> string \<Rightarrow> string \<Rightarrow> bool \<Rightarrow> (string \<times> string \<times> string) res" where
  "get_relay_connection_str e subscription resource_group_name cluster_name cluster_location
       auth_rule_name get_key_only =
     (let cluster_id = cluster_name @ ''-'' @ subscription @ ''-'' @ resource_group_name @ ''-relay''
      in case get_valid_name cluster_id 6 50 of
           Inl err \<Rightarrow> throw err
         | Inr relay_namespace_name \<Rightarrow>
             then_do
               (call (RelayCall resource_group_name relay_namespace_name cluster_name
                        cluster_location get_key_only)
                  (relay e resource_group_name relay_namespace_name cluster_name cluster_location
                     get_key_only))
               (\<lambda>(primary_connection_string, hybrid_connection_id).
                  ret (primary_connection_string,
                       if get_key_only then [] else hybrid_connection_id,
                       cluster_name)))"

definition get_service_bus_connection_string ::
  "env \<Rightarrow> string \<Rightarrow> string \<Rightarrow> string \<Rightarrow> string \<Rightarrow> bool \<Rightarrow> (string \<times> string) res" where
  "get_service_bus_connection_string e subscription resource_group_name cluster_name
       cluster_location get_key_only =
     (let cluster_id =
            cluster_name @ ''-'' @ subscription @ ''-'' @ resource_group_name @ ''-service-bus''
      in case get_valid_name cluster_id 6 50 of
           Inl err \<Rightarrow> throw err
         | Inr service_bus_namespace_name \<Rightarrow>
             call (ServiceBusCall resource_group_name service_bus_namespace_name cluster_location
                     get_key_only)
               (service_bus e resource_group_name service_bus_namespace_name cluster_location
                  get_key_only))"

definition get_log_analytics_ws_connection_string ::
  "env \<Rightarrow> string \<Rightarrow> string \<Rightarrow> string \<Rightarrow> string \<Rightarrow> bool \<Rightarrow> (string \<times> string) res" where
  "get_log_analytics_ws_connection_string e subscription resource_group_name cluster_name
       cluster_location get_key_only =
     (let cluster_id = cluster_name @ ''-'' @ subscription @ ''-'' @ resource_group_name
      in case get_valid_name cluster_id 6 63 of
           Inl err \<Rightarrow> throw err
         | Inr log_analytics_ws_name \<Rightarrow>
             then_do
               (call (LogAnalyticsCall resource_group_name log_analytics_ws_name cluster_location
                        get_key_only)
                  (log_analytics e resource_group_name log_analytics_ws_name cluster_location
                     get_key_only))
               (\<lambda>(workspace_customer_id, primary_shared_key).
                  ret (if get_key_only then [] else workspace_customer_id, primary_shared_key)))"

section \<open>TLS material for inference\<close>

text \<open>\<open>base64.b64encode\<close> on a list of byte values.\<close>

definition b64_char :: "nat \<Rightarrow> char" where
  "b64_char n = ''ABCDEFGHIJKLMNOPQRSTUVWXYZabcdefghijklmnopqrstuvwxyz0123456789+/'' ! n"

fun b64encode :: "nat list \<Rightarrow> string" where
  "b64encode [] = []"
| "b64encode [a] = [b64_char (a div 4), b64_char ((a mod 4) * 16), CHR ''='', CHR ''='']"
| "b64encode [a, b] =
     [b64_char (a div 4), b64_char ((a mod 4) * 16 + b div 16), b64_char ((b mod 16) * 4), CHR ''='']"
| "b64encode (a # b # c # rest) =
     [b64_char (a div 4), b64_char ((a mod 4) * 16 + b div 16),
      b64_char ((b mod 16) * 4 + c div 64), b64_char (c mod 64)] @ b64encode rest"

text \<open>
  One \<open>with open(path) as f\<close> block of \<open>__set_inference_ssl_from_file\<close>: the text of the
  file, encoded as ASCII (a character from 128 on is a UnicodeEncodeError), in base64.
\<close>

definition read_base64 :: "env \<Rightarrow> pyval \<Rightarrow> string res" where
  "read_base64 e path =
     then_do (call (OpenFile path) (read_file e path)) (\<lambda>data.
       if list_all (\<lambda>c. (of_char c :: nat) < 128) data
       then ret (b64encode (map of_char data))
       else throw (Propagated (OtherError ''UnicodeEncodeError'')))"

definition set_inference_ssl_from_file :: "env \<Rightarrow> config \<Rightarrow> pyval \<Rightarrow> pyval \<Rightarrow> config res" where
  "set_inference_ssl_from_file e configuration_protected_settings fe_ssl_cert_file fe_ssl_key_file =
     then_do (read_base64 e fe_ssl_cert_file) (\<lambda>ssl_cert.
     then_do (read_base64 e fe_ssl_key_file) (\<lambda>ssl_key.
       ret (AList.update ''scoringFe.sslKey'' (PStr ssl_key)
              (AList.update ''scoringFe.sslCert'' (PStr ssl_cert)
                 configuration_protected_settings))))"

definition set_inference_ssl_from_secret :: "config \<Rightarrow> pyval \<Rightarrow> config" where
  "set_inference_ssl_from_secret configuration_settings fe_ssl_secret =
     AList.update ''scoringFe.sslSecret'' fe_ssl_secret configuration_settings"

text \<open>\<open>__set_up_inference_ssl\<close>; the result is the two maps as the method leaves them.\<close>

definition set_up_inference_ssl :: "env \<Rightarrow> config \<Rightarrow> config \<Rightarrow> (config \<times> config) res" where
  "set_up_inference_ssl e configuration_settings configuration_protected_settings =
     (let allow =
            str_lower_is (get_value_from_config_protected_config allowInsecureConnections
              configuration_settings configuration_protected_settings) ''true''
      in if \<not> allow then
           (let fe_ssl_secret = get_value_from_config_protected_config SSL_SECRET
                  configuration_settings configuration_protected_settings;
                fe_ssl_cert_file = dict_get configuration_protected_settings sslCertPemFile;
                fe_ssl_key_file = dict_get configuration_protected_settings sslKeyPemFile
            in if truthy (py_and fe_ssl_cert_file fe_ssl_key_file) then
                 then_do (set_inference_ssl_from_file e configuration_protected_settings
                            fe_ssl_cert_file fe_ssl_key_file) (\<lambda>ps.
                   ret (configuration_settings, ps))
               else ret (set_inference_ssl_from_secret configuration_settings fe_ssl_secret,
                         configuration_protected_settings))
         else
           then_do (emit (Warning
               ''SSL is not enabled. Allowing insecure connections to the deployed services.''))
             (\<lambda>_. ret (configuration_settings, configuration_protected_settings)))"

section \<open>Validation of the configuration (\<open>Create\<close>)\<close>

definition tls_message :: "string \<Rightarrow> string" where
  "tls_message release_namespace =
     ''To enable HTTPs endpoint, '' @
     ''either provide sslCertPemFile and sslKeyPemFile to config protected settings, '' @
     ''or provide sslSecret (kubernetes secret name) containing both ssl cert and ssl key under '' @
     release_namespace @ '' namespace. '' @
     ''Otherwise, to enable HTTP endpoint, explicitly set allowInsecureConnections=true.''"

definition ilb_warning :: event where
  "ilb_warning = Warning ''Internal load balancer only supported on AKS and AKS Engine Clusters.''"

text \<open>\<open>__validate_scoring_fe_settings\<close>; the result is the settings map as the method leaves it.\<close>

definition validate_scoring_fe_settings :: "config \<Rightarrow> config \<Rightarrow> string \<Rightarrow> config res" where
  "validate_scoring_fe_settings configuration_settings configuration_protected_settings
       release_namespace =
     (let isTestCluster =
            str_lower_is (get_value_from_config_protected_config inferenceLoadBalancerHA
              configuration_settings configuration_protected_settings) ''false'';
          cs1 = AList.update ''clusterPurpose''
                  (PStr (if isTestCluster then ''DevTest'' else ''FastProd'')) configuration_settings;
          isAKSMigration =
            str_lower_is (get_value_from_config_protected_config IS_AKS_MIGRATION
              cs1 configuration_protected_settings) ''true'';
          cs2 = (if isAKSMigration
                 then AList.update IS_AKS_MIGRATION (PStr ''true'')
                        (AList.update ''scoringFe.namespace'' (PStr ''default'') cs1)
                 else cs1);
          sslSecret = get_value_from_config_protected_config SSL_SECRET
                        cs2 configuration_protected_settings;
          feSslCertFile = dict_get configuration_protected_settings sslCertPemFile;
          feSslKeyFile = dict_get configuration_protected_settings sslKeyPemFile;
          allow =
            str_lower_is (get_value_from_config_protected_config allowInsecureConnections
              cs2 configuration_protected_settings) ''true'';
          sslEnabled = py_or (py_and feSslCertFile feSslKeyFile) sslSecret
      in if \<not> truthy sslEnabled \<and> \<not> allow then
           throw (InvalidArgumentValueError (tls_message release_namespace))
         else
           (let feIsNodePort =
                  str_lower_is (get_value_from_config_protected_config privateEndpointNodeport
                    cs2 configuration_protected_settings) ''true'';
                feIsInternalLoadBalancer =
                  str_lower_is (get_value_from_config_protected_config privateEndpointILB
                    cs2 configuration_protected_settings) ''true''
            in if feIsNodePort \<and> feIsInternalLoadBalancer then
                 throw (MutuallyExclusiveArgumentError
                   ''Specify either privateEndpointNodeport=true or privateEndpointILB=true, but not both.'')
               else if feIsNodePort then
                 ret (AList.update ''scoringFe.serviceType.nodePort'' (PBool feIsNodePort) cs2)
               else if feIsInternalLoadBalancer then
                 then_do (emit ilb_warning) (\<lambda>_.
                   ret (AList.update ''scoringFe.serviceType.internalLoadBalancer''
                          (PBool feIsInternalLoadBalancer) cs2))
               else ret cs2))"

text \<open>
  \<open>set(config_keys) & set(config_protected_keys)\<close>. Python fixes no order for the
  elements of a set; the model lists them in the order of the settings map.
\<close>

definition dup_keys :: "config \<Rightarrow> config \<Rightarrow> string list" where
  "dup_keys configuration_settings configuration_protected_settings =
     remdups (filter (has_key configuration_protected_settings) (map fst configuration_settings))"

definition dup_warning :: "string \<Rightarrow> event" where
  "dup_warning key =
     Warning (''Duplicate keys found in both configuration settings and configuration protected setttings: '' @ key)"

definition enable_message :: string where
  "enable_message =
     ''To create Microsoft.AzureML.Kubernetes extension, either '' @
     ''enable Machine Learning training or inference by specifying '' @
     sq @ ''--configuration-settings '' @ ENABLE_TRAINING @ ''=true'' @ sq @ '' or '' @
     sq @ ''--configuration-settings '' @ ENABLE_INFERENCE @ ''=true'' @ sq"

definition experimental_warning :: event where
  "experimental_warning =
     Warning (''The installed AzureML extension for AML inference is experimental and not covered by '' @
              ''customer support. Please use with discretion.'')"

text \<open>\<open>__validate_config\<close>; the result is the two maps as the method leaves them.\<close>

definition validate_config :: "env \<Rightarrow> config \<Rightarrow> config \<Rightarrow> string \<Rightarrow> (config \<times> config) res" where
  "validate_config e configuration_settings configuration_protected_settings release_namespace =
     (if dup_keys configuration_settings configuration_protected_settings \<noteq> [] then
        (map dup_warning (dup_keys configuration_settings configuration_protected_settings),
         Inl (InvalidArgumentValueError ''Duplicate keys found.''))
      else
        (let enable_training =
               str_lower_is (get_value_from_config_protected_config ENABLE_TRAINING
                 configuration_settings configuration_protected_settings) ''true'';
             enable_inference =
               str_lower_is (get_value_from_config_protected_config ENABLE_INFERENCE
                 configuration_settings configuration_protected_settings) ''true''
         in then_do
              (if enable_inference then
                 then_do (emit experimental_warning) (\<lambda>_.
                 then_do (validate_scoring_fe_settings configuration_settings
                            configuration_protected_settings release_namespace) (\<lambda>cs.
                   set_up_inference_ssl e cs configuration_protected_settings))
               else if \<not> (enable_training \<or> enable_inference) then
                 throw (InvalidArgumentValueError enable_message)
               else ret (configuration_settings, configuration_protected_settings))
              (\<lambda>(cs, ps).
                 let cs1 = AList.update ENABLE_TRAINING
                             (dict_get_default cs ENABLE_TRAINING (PBool enable_training)) cs;
                     cs2 = AList.update ENABLE_INFERENCE
                             (dict_get_default cs1 ENABLE_INFERENCE (PBool enable_inference)) cs1
                 in ret (cs2, AList.delete ENABLE_INFERENCE (AList.delete ENABLE_TRAINING ps)))))"

section \<open>Provisioning on demand (\<open>Create\<close>)\<close>

text \<open>\<open>__create_required_resource\<close>, its three blocks in order.\<close>

definition create_log_analytics ::
  "env \<Rightarrow> config \<Rightarrow> config \<Rightarrow> string \<Rightarrow> string \<Rightarrow> string \<Rightarrow> string \<Rightarrow> (config \<times> config) res" where
  "create_log_analytics e cs ps subscription resource_group_name cluster_name cluster_location =
     (if str_lower_is (dict_get_default cs LOG_ANALYTICS_WS_ENABLED (PBool False)) ''true''
         \<and> \<not> truthy (dict_get cs AZURE_LOG_ANALYTICS_CONNECTION_STRING)
         \<and> \<not> truthy (dict_get ps AZURE_LOG_ANALYTICS_CONNECTION_STRING)
      then
        then_do (emit (Info ''==== BEGIN LOG ANALYTICS WORKSPACE CREATION ===='')) (\<lambda>_.
        then_do (get_log_analytics_ws_connection_string e subscription resource_group_name
                   cluster_name cluster_location False) (\<lambda>(ws_costumer_id, shared_key).
        then_do (emit (Info ''==== END LOG ANALYTICS WORKSPACE CREATION ===='')) (\<lambda>_.
          ret (AList.update AZURE_LOG_ANALYTICS_CUSTOMER_ID_KEY (PStr ws_costumer_id)
                 (AList.update AZURE_LOG_ANALYTICS_ENABLED_KEY (PBool True) cs),
               AList.update AZURE_LOG_ANALYTICS_CONNECTION_STRING (PStr shared_key) ps))))
      else ret (cs, ps))"

definition create_relay ::
  "env \<Rightarrow> config \<Rightarrow> config \<Rightarrow> string \<Rightarrow> string \<Rightarrow> string \<Rightarrow> string \<Rightarrow> (config \<times> config) res" where
  "create_relay e cs ps subscription resource_group_name cluster_name cluster_location =
     (if \<not> truthy (dict_get cs RELAY_SERVER_CONNECTION_STRING)
         \<and> \<not> truthy (dict_get ps RELAY_SERVER_CONNECTION_STRING)
      then
        then_do (emit (Info ''==== BEGIN RELAY CREATION ===='')) (\<lambda>_.
        then_do (get_relay_connection_str e subscription resource_group_name cluster_name
                   cluster_location RELAY_HC_AUTH_NAME False)
          (\<lambda>(relay_connection_string, hc_resource_id, hc_name).
        then_do (emit (Info ''==== END RELAY CREATION ===='')) (\<lambda>_.
          ret (AList.update RELAY_HC_NAME_KEY (PStr hc_name)
                 (AList.update HC_RESOURCE_ID_KEY (PStr hc_resource_id) cs),
               AList.update RELAY_SERVER_CONNECTION_STRING (PStr relay_connection_string) ps))))
      else ret (cs, ps))"

definition create_service_bus ::
  "env \<Rightarrow> config \<Rightarrow> config \<Rightarrow> string \<Rightarrow> string \<Rightarrow> string \<Rightarrow> string \<Rightarrow> (config \<times> config) res" where
  "create_service_bus e cs ps subscription resource_group_name cluster_name cluster_location =
     (if \<not> truthy (dict_get cs SERVICE_BUS_CONNECTION_STRING)
         \<and> \<not> truthy (dict_get ps SERVICE_BUS_CONNECTION_STRING)
      then
        then_do (emit (Info ''==== BEGIN SERVICE BUS CREATION ===='')) (\<lambda>_.
        then_do (get_service_bus_connection_string e subscription resource_group_name cluster_name
                   cluster_location False)
          (\<lambda>(service_bus_connection_string, service_buse_resource_id).
        then_do (emit (Info ''==== END SERVICE BUS CREATION ===='')) (\<lambda>_.
          ret (AList.update
                 (SERVICE_BUS_TOPIC_SUB_MAPPING_KEY @ ''.'' @ SERVICE_BUS_JOB_STATE_TOPIC)
                 (PStr SERVICE_BUS_JOB_STATE_SUB)
                 (AList.update
                    (SERVICE_BUS_TOPIC_SUB_MAPPING_KEY @ ''.'' @ SERVICE_BUS_COMPUTE_STATE_TOPIC)
                    (PStr SERVICE_BUS_COMPUTE_STATE_SUB)
                    (AList.update SERVICE_BUS_RESOURCE_ID_KEY (PStr service_buse_resource_id) cs)),
               AList.update SERVICE_BUS_CONNECTION_STRING (PStr service_bus_connection_string) ps))))
      else ret (cs, ps))"

definition create_required_resource ::
  "env \<Rightarrow> config \<Rightarrow> config \<Rightarrow> string \<Rightarrow> string \<Rightarrow> string \<Rightarrow> string \<Rightarrow> (config \<times> config) res" where
  "create_required_resource e configuration_settings configuration_protected_settings
       subscription resource_group_name cluster_name cluster_location =
     then_do (create_log_analytics e configuration_settings configuration_protected_settings
                subscription resource_group_name cluster_name cluster_location) (\<lambda>(cs1, ps1).
     then_do (create_relay e cs1 ps1 subscription resource_group_name cluster_name
                cluster_location) (\<lambda>(cs2, ps2).
       create_service_bus e cs2 ps2 subscription resource_group_name cluster_name
         cluster_location))"

section \<open>\<open>Create\<close>\<close>

record extension =
  ext_extension_type :: string
  ext_auto_upgrade_minor_version :: bool
  ext_release_train :: string
  ext_version :: "string option"
  ext_release_namespace :: string
  ext_configuration_settings :: config
  ext_configuration_protected_settings :: config
  ext_location :: string

text \<open>
  The five assignments after the cluster lookup, each
  \<open>settings[key] = settings.get(key', default)\<close>, in the order of the source.
\<close>

definition fill_defaults :: "config \<Rightarrow> string \<Rightarrow> string \<Rightarrow> string \<Rightarrow> config" where
  "fill_defaults configuration_settings cluster_resource_id cluster_location cluster_name =
     (let cs1 = AList.update ''cluster_name''
                  (dict_get_default configuration_settings ''cluster_name''
                     (PStr cluster_resource_id)) configuration_settings;
          cs2 = AList.update ''domain''
                  (dict_get_default cs1 ''doamin'' (PStr (cluster_location @ ''.cloudapp.azure.com''))) cs1;
          cs3 = AList.update ''location'' (dict_get_default cs2 ''location'' (PStr cluster_location)) cs2;
          cs4 = AList.update JOB_SCHEDULER_LOCATION_KEY
                  (dict_get_default cs3 JOB_SCHEDULER_LOCATION_KEY (PStr cluster_location)) cs3
      in AList.update CLUSTER_NAME_FRIENDLY_KEY
           (dict_get_default cs4 CLUSTER_NAME_FRIENDLY_KEY (PStr cluster_name)) cs4)"

definition scope_message :: "string \<Rightarrow> string" where
  "scope_message scope =
     ''Invalid scope '' @ sq @ scope @ sq @ ''.  This extension can be installed '' @
     ''only at '' @ sq @ ''cluster'' @ sq @ '' scope.''"

text \<open>
  \<open>AzureMLKubernetes.Create\<close>. An omitted \<open>scope\<close>, \<open>release_namespace\<close> or \<open>release_train\<close>
  is \<open>None\<close>. The arguments the method never reads (\<open>client\<close>, \<open>target_namespace\<close>, the two
  settings files) are left out.
\<close>

definition Create ::
  "env \<Rightarrow> string \<Rightarrow> string \<Rightarrow> string \<Rightarrow> string \<Rightarrow> string \<Rightarrow> string option \<Rightarrow> bool \<Rightarrow>
   string option \<Rightarrow> string option \<Rightarrow> string option \<Rightarrow> config \<Rightarrow> config \<Rightarrow>
   (extension \<times> string \<times> bool) res" where
  "Create e resource_group_name cluster_name name cluster_type extension_type scope
       auto_upgrade_minor_version release_train version release_namespace
       configuration_settings configuration_protected_settings =
     (if scope = Some ''namespace'' then
        throw (InvalidArgumentValueError (scope_message ''namespace''))
      else
        (let release_namespace' =
               (case release_namespace of
                  None \<Rightarrow> DEFAULT_RELEASE_NAMESPACE
                | Some ns \<Rightarrow> if ns = [] then DEFAULT_RELEASE_NAMESPACE else ns)
         in then_do (validate_config e configuration_settings configuration_protected_settings
                       release_namespace') (\<lambda>(cs, ps).
            then_do (case cluster_rp_api_version e cluster_type of
                       Inl x \<Rightarrow> throw (Propagated x) | Inr r \<Rightarrow> ret r)
              (\<lambda>(cluster_rp, parent_api_version).
            let cluster_resource_id =
                  ''/subscriptions/'' @ subscription_id e @ ''/resourceGroups/'' @ resource_group_name
                  @ ''/providers/'' @ cluster_rp @ ''/'' @ cluster_type @ ''/'' @ cluster_name
            in then_do (call (GetById cluster_resource_id parent_api_version)
                          (get_by_id e cluster_resource_id parent_api_version)) (\<lambda>location.
            let cluster_location = lower location;
                cs' = fill_defaults cs cluster_resource_id cluster_location cluster_name
            in then_do (create_required_resource e cs' ps (subscription_id e) resource_group_name
                          cluster_name cluster_location) (\<lambda>(cs'', ps'').
                 ret (\<lparr>ext_extension_type = extension_type,
                        ext_auto_upgrade_minor_version = auto_upgrade_minor_version,
                        ext_release_train = (case release_train of None \<Rightarrow> ''stable'' | Some t \<Rightarrow> t),
                        ext_version = version,
                        ext_release_namespace = release_namespace',
                        ext_configuration_settings = dereference reference_mapping cs'',
                        ext_configuration_protected_settings = dereference reference_mapping ps'',
                        ext_location = []\<rparr>,
                      name, True)))))))"

section \<open>\<open>Update\<close>\<close>

text \<open>\<open>__normalize_config\<close>; the result is the settings map as the method leaves it.\<close>

definition normalize_config :: "config \<Rightarrow> config \<Rightarrow> config res" where
  "normalize_config configuration_settings configuration_protected_settings =
     (let isTestCluster = get_value_from_config_protected_config inferenceLoadBalancerHA
            configuration_settings configuration_protected_settings;
          cs1 = (if isTestCluster \<noteq> PNone
                 then AList.update ''clusterPurpose''
                        (PStr (if str_lower_is isTestCluster ''false'' then ''DevTest'' else ''FastProd''))
                        configuration_settings
                 else configuration_settings);
          feIsNodePort = get_value_from_config_protected_config privateEndpointNodeport
            cs1 configuration_protected_settings;
          cs2 = (if feIsNodePort \<noteq> PNone
                 then AList.update ''scoringFe.serviceType.nodePort''
                        (PBool (str_lower_is feIsNodePort ''true'')) cs1
                 else cs1);
          feIsInternalLoadBalancer = get_value_from_config_protected_config privateEndpointILB
            cs2 configuration_protected_settings
      in if feIsInternalLoadBalancer \<noteq> PNone then
           then_do (emit ilb_warning) (\<lambda>_.
             ret (AList.update ''scoringFe.serviceType.internalLoadBalancer''
                    (PBool (str_lower_is feIsInternalLoadBalancer ''true'')) cs2))
         else ret cs2)"

text \<open>
  The confirmation block of \<open>Update\<close>: the message the caller has to confirm, or \<open>None\<close>
  when the update touches nothing that needs one.
\<close>

definition update_message :: "config \<Rightarrow> config \<Rightarrow> string option" where
  "update_message cs ps =
     (let enableTraining = get_value_from_config_protected_config ENABLE_TRAINING cs ps;
          disableTraining = (enableTraining \<noteq> PNone \<and> str_lower_is enableTraining ''false'');
          m1 = (if disableTraining then ''enableTraining from True to False,'' @ nl else []);
          enableInference = get_value_from_config_protected_config ENABLE_INFERENCE cs ps;
          disableInference = (enableInference \<noteq> PNone \<and> str_lower_is enableInference ''false'');
          m2 = m1 @ (if disableInference then ''enableInference from True to False,'' @ nl else []);
          nvidia = get_value_from_config_protected_config installNvidiaDevicePlugin cs ps;
          disableNvidiaDevicePlugin = (nvidia \<noteq> PNone \<and> str_lower_is nvidia ''false'');
          m3 = m2 @ (if disableNvidiaDevicePlugin
                     then ''installNvidiaDevicePlugin from True to False if Nvidia GPU is used,'' @ nl
                     else []);
          hasAllowInsecureConnections =
            (get_value_from_config_protected_config allowInsecureConnections cs ps \<noteq> PNone);
          m4 = m3 @ (if hasAllowInsecureConnections then ''allowInsecureConnections'' @ nl else []);
          hasPrivateEndpointNodeport =
            (get_value_from_config_protected_config privateEndpointNodeport cs ps \<noteq> PNone);
          m5 = m4 @ (if hasPrivateEndpointNodeport then ''privateEndpointNodeport'' @ nl else []);
          hasPrivateEndpointILB =
            (get_value_from_config_protected_config privateEndpointILB cs ps \<noteq> PNone);
          m6 = m5 @ (if hasPrivateEndpointILB then ''privateEndpointILB'' @ nl else []);
          hasNodeSelector = check_nodeselector_existed cs ps;
          m7 = m6 @ (if hasNodeSelector
                     then ''nodeSelector. Update operation can'' @ sq @
                          ''t remove an existed node selector, but can update or add new ones.'' @ nl
                     else []);
          logAnalyticsWS = get_value_from_config_protected_config LOG_ANALYTICS_WS_ENABLED cs ps;
          enableLogAnalyticsWS = (logAnalyticsWS \<noteq> PNone \<and> str_lower_is logAnalyticsWS ''true'');
          messageBody = m7 @ (if enableLogAnalyticsWS
                     then ''To update logAnalyticsWS from False to True, please provide all original '' @
                          ''configurationProtectedSettings. Otherwise, those settings would be '' @
                          ''considered obsolete and deleted.'' @ nl
                     else []);
          i1 = (if disableTraining \<or> disableNvidiaDevicePlugin \<or> hasNodeSelector then ''jobs'' else []);
          impactScenario =
            (if disableInference \<or> disableNvidiaDevicePlugin \<or> hasAllowInsecureConnections
                \<or> hasPrivateEndpointNodeport \<or> hasPrivateEndpointILB \<or> hasNodeSelector
             then (if i1 = [] then ''online endpoints and deployments''
                   else i1 @ '', online endpoints and deployments'')
             else i1)
      in if impactScenario \<noteq> [] then
           Some (nl @ ''The following configuration update will IMPACT your active Machine Learning ''
                 @ impactScenario
                 @ ''. It will be the safe update if the cluster doesn'' @ sq
                 @ ''t have active Machine Learning '' @ impactScenario @ ''.'' @ nl @ nl
                 @ messageBody @ nl @ ''Proceed?'')
         else if enableLogAnalyticsWS then Some (nl @ messageBody @ nl @ ''Proceed?'')
         else None)"

definition update_confirm :: "env \<Rightarrow> bool \<Rightarrow> config \<Rightarrow> config \<Rightarrow> unit res" where
  "update_confirm e yes cs ps =
     (case update_message cs ps of
        None \<Rightarrow> ret ()
      | Some message \<Rightarrow>
          then_do (emit (Prompt message)) (\<lambda>_.
            case user_confirmation e yes message of
              None \<Rightarrow> ret ()
            | Some x \<Rightarrow> throw (Propagated x)))"

text \<open>
  The three lookups of \<open>Update\<close>, each a \<open>try\<close> around its helper with
  \<open>get_key_only=True\<close> and an empty location, entered when the key is not in the
  protected settings. The handler of the first catches \<open>HttpResponseError\<close>, that of the
  second \<open>ErrorResponseException\<close>, that of the third \<open>HttpResponseError\<close>; anything else
  leaves \<open>Update\<close> as it was raised.
\<close>

definition update_log_analytics :: "env \<Rightarrow> string \<Rightarrow> string \<Rightarrow> config \<Rightarrow> config res" where
  "update_log_analytics e resource_group_name cluster_name ps =
     (if \<not> has_key ps AZURE_LOG_ANALYTICS_CONNECTION_STRING then
        (case get_log_analytics_ws_connection_string e (subscription_id e) resource_group_name
                cluster_name [] True of
           (evs, Inr (_, shared_key)) \<Rightarrow>
             (evs @ [Info ''Get log analytics connection string succeeded.''],
              Inr (AList.update AZURE_LOG_ANALYTICS_CONNECTION_STRING (PStr shared_key) ps))
         | (evs, Inl (Propagated (HttpResponseError _))) \<Rightarrow>
             (evs @ [Info ''Failed to get log analytics connection string.''], Inr ps)
         | (evs, Inl err) \<Rightarrow> (evs, Inl err))
      else ret ps)"

definition update_relay :: "env \<Rightarrow> string \<Rightarrow> string \<Rightarrow> config \<Rightarrow> config res" where
  "update_relay e resource_group_name cluster_name ps =
     (if \<not> has_key ps RELAY_SERVER_CONNECTION_STRING then
        (case get_relay_connection_str e (subscription_id e) resource_group_name cluster_name []
                RELAY_HC_AUTH_NAME True of
           (evs, Inr (relay_connection_string, _, _)) \<Rightarrow>
             (evs @ [Info ''Get relay connection string succeeded.''],
              Inr (AList.update RELAY_SERVER_CONNECTION_STRING (PStr relay_connection_string) ps))
         | (evs, Inl (Propagated (ErrorResponseException status_code))) \<Rightarrow>
             (evs, Inl (if status_code = 404 then ResourceNotFoundError ''Relay server not found.''
                        else AzureResponseError ''Failed to get relay connection string.''))
         | (evs, Inl err) \<Rightarrow> (evs, Inl err))
      else ret ps)"

definition update_service_bus :: "env \<Rightarrow> string \<Rightarrow> string \<Rightarrow> config \<Rightarrow> config res" where
  "update_service_bus e resource_group_name cluster_name ps =
     (if \<not> has_key ps SERVICE_BUS_CONNECTION_STRING then
        (case get_service_bus_connection_string e (subscription_id e) resource_group_name
                cluster_name [] True of
           (evs, Inr (service_bus_connection_string, _)) \<Rightarrow>
             (evs @ [Info ''Get service bus connection string succeeded.''],
              Inr (AList.update SERVICE_BUS_CONNECTION_STRING (PStr service_bus_connection_string) ps))
         | (evs, Inl (Propagated (HttpResponseError status_code))) \<Rightarrow>
             (evs, Inl (if status_code = 404 then ResourceNotFoundError ''Service bus not found.''
                        else AzureResponseError ''Failed to get service bus connection string.''))
         | (evs, Inl err) \<Rightarrow> (evs, Inl err))
      else ret ps)"

text \<open>
  The end of the block: the dereference pass, then the TLS files. \<open>Update\<close> hands the
  two key names themselves to \<open>__set_inference_ssl_from_file\<close> as the paths to open.
\<close>

definition update_ssl :: "env \<Rightarrow> config \<Rightarrow> config res" where
  "update_ssl e ps =
     (let ps' = dereference reference_mapping ps
      in if has_key ps' sslKeyPemFile \<and> has_key ps' sslCertPemFile then
           then_do (emit (Info (''Both '' @ sslKeyPemFile @ '' and '' @ sslCertPemFile
                                @ '' are set, update ssl key.''))) (\<lambda>_.
             set_inference_ssl_from_file e ps' (PStr sslCertPemFile) (PStr sslKeyPemFile))
         else ret ps')"

record patch_extension =
  patch_auto_upgrade_minor_version :: "bool option"
  patch_release_train :: "string option"
  patch_version :: "string option"
  patch_configuration_settings :: config
  patch_configuration_protected_settings :: config

text \<open>The block of \<open>Update\<close> under \<open>if len(configuration_protected_settings) > 0\<close>.\<close>

definition update_protected_settings :: "env \<Rightarrow> string \<Rightarrow> string \<Rightarrow> config \<Rightarrow> config res" where
  "update_protected_settings e resource_group_name cluster_name configuration_protected_settings =
     then_do (update_log_analytics e resource_group_name cluster_name
                configuration_protected_settings) (\<lambda>ps1.
     then_do (update_relay e resource_group_name cluster_name ps1) (\<lambda>ps2.
     then_do (update_service_bus e resource_group_name cluster_name ps2) (\<lambda>ps3.
       update_ssl e ps3)))"

text \<open>\<open>AzureMLKubernetes.Update\<close>.\<close>

definition Update ::
  "env \<Rightarrow> string \<Rightarrow> string \<Rightarrow> bool option \<Rightarrow> string option \<Rightarrow> string option \<Rightarrow>
   config \<Rightarrow> config \<Rightarrow> bool \<Rightarrow> patch_extension res" where
  "Update e resource_group_name cluster_name auto_upgrade_minor_version release_train version
       configuration_settings configuration_protected_settings yes =
     then_do (normalize_config configuration_settings configuration_protected_settings) (\<lambda>cs.
     then_do (if length cs > 0 then update_confirm e yes cs configuration_protected_settings
              else ret ()) (\<lambda>_.
     then_do (if length configuration_protected_settings > 0 then
                update_protected_settings e resource_group_name cluster_name
                  configuration_protected_settings
              else ret configuration_protected_settings) (\<lambda>ps.
       ret \<lparr>patch_auto_upgrade_minor_version = auto_upgrade_minor_version,
            patch_release_train = release_train,
            patch_version = version,
            patch_configuration_settings = cs,
            patch_configuration_protected_settings = ps\<rparr>)))"

section \<open>A sample environment\<close>

text \<open>
  A connected cluster in \<open>EastUS\<close> whose management calls all succeed, and three
  variants of it: the relay namespace of the cluster does not exist, its Service Bus
  namespace does not exist, the Log Analytics service answers with status 500. They are
  used to run the operations on concrete inputs.
\<close>

definition env0 :: env where
  "env0 =
     \<lparr>subscription_id = ''sub1'',
      cluster_rp_api_version = (\<lambda>cluster_type. Inr (''Microsoft.Kubernetes'', ''2021-10-01'')),
      get_by_id = (\<lambda>resource_id api_version. Inr ''EastUS''),
      log_analytics = (\<lambda>rg ws_name loc get_key_only. Inr (''customer1'', ''lakey'')),
      relay = (\<lambda>rg ns hc loc get_key_only. Inr (''relaycs'', ''hcid'')),
      service_bus = (\<lambda>rg ns loc get_key_only. Inr (''sbcs'', ''sbid'')),
      read_file = (\<lambda>path. Inl (OtherError ''FileNotFoundError'')),
      user_confirmation = (\<lambda>yes message. None)\<rparr>"

definition env_relay_missing :: env where
  "env_relay_missing = env0\<lparr>relay := (\<lambda>rg ns hc loc get_key_only. Inl (ErrorResponseException 404))\<rparr>"

definition env_service_bus_missing :: env where
  "env_service_bus_missing =
     env0\<lparr>service_bus := (\<lambda>rg ns loc get_key_only. Inl (HttpResponseError 404))\<rparr>"

definition env_log_analytics_down :: env where
  "env_log_analytics_down =
     env0\<lparr>log_analytics := (\<lambda>rg ws_name loc get_key_only. Inl (HttpResponseError 500))\<rparr>"

section \<open>Vocabulary for the properties of the argument action\<close>

text \<open>
  None of the following is code of the repository. The first definitions name what the
  properties of \<open>get_action\<close> are stated with: the keys of a list in the order of their
  first appearance, the values given under a key exactly as it is written, and the
  permitted keys of \<open>--conditions\<close>.
\<close>

fun first_appearances :: "'a list \<Rightarrow> 'a list" where
  "first_appearances [] = []"
| "first_appearances (x # xs) = x # first_appearances (filter (\<lambda>y. y \<noteq> x) xs)"

definition values_of_key :: "string \<Rightarrow> (string \<times> string) list \<Rightarrow> string list" where
  "values_of_key k kvs = map snd (filter (\<lambda>kv. fst kv = k) kvs)"

definition permitted :: "string \<Rightarrow> bool" where
  "permitted name = (name = ''field'' \<or> name = ''operator'' \<or> name = ''values'')"

text \<open>The value the record holds under a name, from the values of a group.\<close>

definition entry :: "string \<Rightarrow> string list \<Rightarrow> cond_val" where
  "entry name vs = (if name = ''values'' then Multi vs else Single (hd vs))"

text \<open>
  The record as the specification words it: the values are grouped by the lowercased
  key; \<open>field\<close> and \<open>operator\<close> hold the first value of their group, \<open>values\<close> holds all
  the values of its group, and a name without values is not in the record.
\<close>

definition values_of_lowered :: "string \<Rightarrow> (string \<times> string) list \<Rightarrow> string list" where
  "values_of_lowered name kvs = map snd (filter (\<lambda>kv. lower (fst kv) = name) kvs)"

definition spec_conditions :: "(string \<times> string) list \<Rightarrow> string \<Rightarrow> cond_val option" where
  "spec_conditions kvs name =
     (case values_of_lowered name kvs of
        [] \<Rightarrow> None
      | v # vs \<Rightarrow>
          if name = ''field'' \<or> name = ''operator'' then Some (Single v)
          else if name = ''values'' then Some (Multi (v # vs))
          else None)"

section \<open>Properties of the dereference pass\<close>

lemma map_of_update_get_default:
  "map_of (AList.update key (dict_get_default d key rv) d) k =
     (if k = key then Some (dict_get_default d key rv) else map_of d k)"
  by (simp add: update_conv')

lemma dereference_keys_keeps:
  "map_of d k = Some v \<Longrightarrow> map_of (dereference_keys rv ks d) k = Some v"
proof (induction ks arbitrary: d)
  case Nil
  then show ?case by simp
next
  case (Cons key ks)
  have "map_of (AList.update key (dict_get_default d key rv) d) k = Some v"
    using Cons.prems by (auto simp add: update_conv' dict_get_default_def)
  then show ?case using Cons.IH by simp
qed

lemma dereference_keeps:
  "map_of d k = Some v \<Longrightarrow> map_of (dereference ref d) k = Some v"
proof (induction ref arbitrary: d)
  case Nil
  then show ?case by simp
next
  case (Cons e ref)
  obtain rk rl where e: "e = (rk, rl)" by (cases e)
  show ?case
  proof (cases "map_of d rk")
    case None
    then show ?thesis using Cons e by simp
  next
    case (Some rv)
    have "map_of (dereference_keys rv rl d) k = Some v"
      using Cons.prems by (rule dereference_keys_keeps)
    then show ?thesis using Cons.IH Some e by simp
  qed
qed

lemma dereference_keys_untouched:
  "k \<notin> set ks \<Longrightarrow> map_of (dereference_keys rv ks d) k = map_of d k"
proof (induction ks arbitrary: d)
  case Nil
  then show ?case by simp
next
  case (Cons key ks)
  then show ?case by (simp add: map_of_update_get_default)
qed

lemma dereference_keys_fills:
  "k \<in> set ks \<Longrightarrow> map_of d k = None \<Longrightarrow> map_of (dereference_keys rv ks d) k = Some rv"
proof (induction ks arbitrary: d)
  case Nil
  then show ?case by simp
next
  case (Cons key ks)
  show ?case
  proof (cases "k = key")
    case True
    have "map_of (AList.update key (dict_get_default d key rv) d) k = Some rv"
      using True Cons.prems(2) by (simp add: update_conv' dict_get_default_def)
    then show ?thesis by (simp add: dereference_keys_keeps)
  next
    case False
    then have "k \<in> set ks" using Cons.prems(1) by simp
    moreover have "map_of (AList.update key (dict_get_default d key rv) d) k = None"
      using False Cons.prems(2) by (simp add: map_of_update_get_default)
    ultimately show ?thesis using Cons.IH by simp
  qed
qed

lemma dereference_fills:
  "(rk, rl) \<in> set ref \<Longrightarrow> distinct (concat (map snd ref)) \<Longrightarrow> map_of d rk = Some v \<Longrightarrow>
   k \<in> set rl \<Longrightarrow> map_of d k = None \<Longrightarrow> map_of (dereference ref d) k = Some v"
proof (induction ref arbitrary: d)
  case Nil
  then show ?case by simp
next
  case (Cons e ref)
  obtain rk' rl' where e: "e = (rk', rl')" by (cases e)
  have dist: "distinct (concat (map snd ref))" and disj: "set rl' \<inter> set (concat (map snd ref)) = {}"
    using Cons.prems(2) e by auto
  show ?case
  proof (cases "(rk, rl) = e")
    case True
    then have eq: "rk' = rk" "rl' = rl" using e by auto
    have "map_of (dereference_keys v rl d) k = Some v"
      using Cons.prems(4,5) by (rule dereference_keys_fills)
    then have "map_of (dereference ref (dereference_keys v rl d)) k = Some v"
      by (rule dereference_keeps)
    then show ?thesis using e eq Cons.prems(3) by simp
  next
    case False
    then have mem: "(rk, rl) \<in> set ref" using Cons.prems(1) by simp
    then have "k \<in> set (concat (map snd ref))" using Cons.prems(4) by force
    then have notin: "k \<notin> set rl'" using disj by auto
    show ?thesis
    proof (cases "map_of d rk'")
      case None
      then show ?thesis using Cons.IH [OF mem dist Cons.prems(3,4,5)] e by simp
    next
      case (Some rv)
      have a: "map_of (dereference_keys rv rl' d) rk = Some v"
        using Cons.prems(3) by (rule dereference_keys_keeps)
      have b: "map_of (dereference_keys rv rl' d) k = None"
        using notin Cons.prems(5) by (simp add: dereference_keys_untouched)
      show ?thesis using Cons.IH [OF mem dist a Cons.prems(4) b] e Some by simp
    qed
  qed
qed

text \<open>
  Claim C7, as amended. The dereference pass never changes the value of a key that is
  already in the dictionary, for every reference mapping. When no concrete key stands in
  two reference lists (as in the installer's own table), every concrete key that is
  absent from the dictionary and listed under a virtual key that is present receives
  the value of that virtual key.
\<close>

theorem dereference_keeps_and_fills:
  "(map_of d k = Some v \<longrightarrow> map_of (dereference ref d) k = Some v) \<and>
   (distinct (concat (map snd ref)) \<and> (rk, rl) \<in> set ref \<and> map_of d rk = Some rv \<and>
    key \<in> set rl \<and> map_of d key = None \<longrightarrow>
      map_of (dereference ref d) key = Some rv)"
  using dereference_keeps [of d k v ref] dereference_fills [of rk rl ref d rv key]
  by blast

theorem dereference_keeps_and_fills_witness:
  "map_of [(''cluster_name'', PStr ''c1'')] ''cluster_name'' = Some (PStr ''c1'') \<and>
   map_of (dereference reference_mapping [(''cluster_name'', PStr ''c1'')]) ''cluster_name''
     = Some (PStr ''c1'') \<and>
   distinct (concat (map snd reference_mapping)) \<and>
   (''cluster_name'', [''clusterId'', ''prometheus.prometheusSpec.externalLabels.cluster_name''])
     \<in> set reference_mapping \<and>
   map_of [(''cluster_name'', PStr ''c1'')] ''clusterId'' = None \<and>
   map_of (dereference reference_mapping [(''cluster_name'', PStr ''c1'')]) ''clusterId''
     = Some (PStr ''c1'')"
  using dereference_keeps_and_fills [of "[(''cluster_name'', PStr ''c1'')]" "''cluster_name''"
      "PStr ''c1''" reference_mapping "''cluster_name''"
      "[''clusterId'', ''prometheus.prometheusSpec.externalLabels.cluster_name'']"
      "PStr ''c1''" "''clusterId''"]
  by (simp add: reference_mapping_def)

text \<open>
  Claim C7 as stated fails for a reference mapping in which two virtual keys list the
  same concrete key: both \<open>a\<close> and \<open>b\<close> are present, \<open>c\<close> is absent and listed under
  \<open>b\<close>, and the pass gives \<open>c\<close> the value of \<open>a\<close>, not that of \<open>b\<close>.
\<close>

theorem dereference_shared_key_counterexample:
  "map_of [(''a'', PStr ''1''), (''b'', PStr ''2'')] ''b'' = Some (PStr ''2'') \<and>
   (''b'', [''c'']) \<in> set [(''a'', [''c'']), (''b'', [''c''])] \<and>
   map_of [(''a'', PStr ''1''), (''b'', PStr ''2'')] ''c'' = None \<and>
   map_of (dereference [(''a'', [''c'']), (''b'', [''c''])] [(''a'', PStr ''1''), (''b'', PStr ''2'')]) ''c''
     = Some (PStr ''1'') \<and>
   map_of (dereference [(''a'', [''c'']), (''b'', [''c''])] [(''a'', PStr ''1''), (''b'', PStr ''2'')]) ''c''
     \<noteq> Some (PStr ''2'')"
  by (simp add: dict_get_default_def)

section \<open>Properties of the resource names\<close>

lemma length_md5_digest: "length (md5_digest m) = 16"
  by (simp add: md5_digest_def le_bytes_def split: prod.splits)

lemma length_hex_bytes: "length (concat (map hex_byte bs)) = 2 * length bs"
  by (induction bs) (simp_all add: hex_byte_def)

lemma length_md5_hexdigest: "length (md5_hexdigest m) = 32"
  by (simp add: md5_hexdigest_def length_hex_bytes length_md5_digest)

text \<open>The model of MD5 on the test suite of RFC 1321 and on a two-block message.\<close>

lemma md5_test_vectors:
  "md5_hexdigest (encode_utf8 []) = ''d41d8cd98f00b204e9800998ecf8427e''"
  "md5_hexdigest (encode_utf8 ''abc'') = ''900150983cd24fb0d6963f7d28e17f72''"
  "md5_hexdigest (encode_utf8
     ''12345678901234567890123456789012345678901234567890123456789012345678901234567890'')
   = ''57edf4a22be3c955ac49da2e2107b67a''"
  by code_simp+

text \<open>
  Claim C8, as amended. With suffix length 6: an input whose filtered form is empty fails
  the assertion; an input whose filtered form is not empty and has at most \<open>max_len\<close>
  characters gives the filtered form unchanged; and, when \<open>max_len\<close> is at least 6, an
  input whose filtered form is longer gives exactly \<open>max_len\<close> characters, the first
  \<open>max_len - 6\<close> characters of the filtered form followed by the first 6 characters of
  the MD5 hex digest of the UTF-8 encoding of the unfiltered input. The result depends on
  the three arguments only.
\<close>

theorem get_valid_name_suffix6:
  "(filter isalnum s = [] \<longrightarrow>
      get_valid_name s 6 max_len = Inl (AssertionError ''normalized name empty'')) \<and>
   (filter isalnum s \<noteq> [] \<and> int (length (filter isalnum s)) \<le> max_len \<longrightarrow>
      get_valid_name s 6 max_len = Inr (filter isalnum s)) \<and>
   (6 \<le> max_len \<and> max_len < int (length (filter isalnum s)) \<longrightarrow>
      get_valid_name s 6 max_len =
        Inr (take (nat max_len - 6) (filter isalnum s) @ take 6 (md5_hexdigest (encode_utf8 s))) \<and>
      length (take (nat max_len - 6) (filter isalnum s) @ take 6 (md5_hexdigest (encode_utf8 s)))
        = nat max_len \<and>
      length (take 6 (md5_hexdigest (encode_utf8 s))) = 6)"
proof (intro conjI impI)
  assume "filter isalnum s = []"
  then show "get_valid_name s 6 max_len = Inl (AssertionError ''normalized name empty'')"
    by (simp add: get_valid_name_def)
next
  assume "filter isalnum s \<noteq> [] \<and> int (length (filter isalnum s)) \<le> max_len"
  then show "get_valid_name s 6 max_len = Inr (filter isalnum s)"
    by (simp add: get_valid_name_def)
next
  assume a: "6 \<le> max_len \<and> max_len < int (length (filter isalnum s))"
  then have ne: "filter isalnum s \<noteq> []" by auto
  have "nat (max_len - 6) = nat max_len - 6" using a by simp
  then show "get_valid_name s 6 max_len =
        Inr (take (nat max_len - 6) (filter isalnum s) @ take 6 (md5_hexdigest (encode_utf8 s)))"
    using a ne by (simp add: get_valid_name_def py_prefix_def Let_def)
next
  assume a: "6 \<le> max_len \<and> max_len < int (length (filter isalnum s))"
  then show "length (take (nat max_len - 6) (filter isalnum s) @ take 6 (md5_hexdigest (encode_utf8 s)))
        = nat max_len"
    by (simp add: length_md5_hexdigest) linarith
next
  show "length (take 6 (md5_hexdigest (encode_utf8 s))) = 6"
    by (simp add: length_md5_hexdigest)
qed

theorem get_valid_name_suffix6_witness:
  "get_valid_name ''---'' 6 8 = Inl (AssertionError ''normalized name empty'') \<and>
   get_valid_name ''ab-c'' 6 8 = Inr ''abc'' \<and>
   get_valid_name ''ab-cdefghij'' 6 8 =
     Inr (''ab'' @ take 6 (md5_hexdigest (encode_utf8 ''ab-cdefghij''))) \<and>
   length (''ab'' @ take 6 (md5_hexdigest (encode_utf8 ''ab-cdefghij''))) = 8"
  using get_valid_name_suffix6 [of "''---''" 8] get_valid_name_suffix6 [of "''ab-c''" 8]
    get_valid_name_suffix6 [of "''ab-cdefghij''" 8]
  by (simp add: isalnum_def)

text \<open>
  Claim C8 as stated fails twice. The filtered form of \<open>---\<close> is empty, so it fits within
  any maximum length, and the function fails its assertion instead of returning it. With a
  maximum length of 3 the suffix is cut to 3 characters: the name of \<open>abcdefghij\<close> is
  \<open>a92\<close>, the first 3 characters of the digest \<open>a925576942e94b2ef57a066101b48876\<close>, not 6.
\<close>

theorem get_valid_name_counterexample:
  "int (length (filter isalnum ''---'')) \<le> 50 \<and>
   get_valid_name ''---'' 6 50 = Inl (AssertionError ''normalized name empty'') \<and>
   int (length (filter isalnum ''abcdefghij'')) > 3 \<and>
   get_valid_name ''abcdefghij'' 6 3 = Inr ''a92'' \<and>
   md5_hexdigest (encode_utf8 ''abcdefghij'') = ''a925576942e94b2ef57a066101b48876''"
  by code_simp

section \<open>Properties of results: how an operation fails\<close>

lemma then_do_ret [simp]: "then_do (ret x) f = f x"
  by (simp add: then_do_def ret_def split: prod.splits)

lemma then_do_throw [simp]: "then_do (throw err) f = throw err"
  by (simp add: then_do_def throw_def)

lemma then_do_Inl [simp]: "then_do (evs, Inl err) f = (evs, Inl err)"
  by (simp add: then_do_def)

lemma then_do_Inr: "then_do (evs, Inr x) f = (evs @ fst (f x), snd (f x))"
  by (simp add: then_do_def split: prod.splits)

lemma then_do_emit: "then_do (emit ev) f = (ev # fst (f ()), snd (f ()))"
  by (simp add: then_do_def emit_def split: prod.splits)

lemma snd_then_do: "snd (then_do m f) = (case snd m of Inl err \<Rightarrow> Inl err | Inr x \<Rightarrow> snd (f x))"
  by (cases m) (auto simp: then_do_def split: sum.splits prod.splits)

lemma snd_ret [simp]: "snd (ret x) = Inr x"
  by (simp add: ret_def)

lemma snd_throw [simp]: "snd (throw err) = Inl err"
  by (simp add: throw_def)

lemma snd_emit [simp]: "snd (emit ev) = Inr ()"
  by (simp add: emit_def)

lemma snd_call: "snd (call ev a) = (case a of Inl x \<Rightarrow> Inl (Propagated x) | Inr y \<Rightarrow> Inr y)"
  by (simp add: call_def)

lemma then_do_fails:
  "snd (then_do m f) = Inl err \<Longrightarrow> snd m = Inl err \<or> (\<exists>x. snd m = Inr x \<and> snd (f x) = Inl err)"
  by (auto simp: snd_then_do split: sum.splits)

lemma call_fails: "snd (call ev a) = Inl err \<Longrightarrow> \<exists>x. err = Propagated x"
  by (auto simp: snd_call split: sum.splits)

lemma read_base64_fails: "snd (read_base64 e p) = Inl err \<Longrightarrow> \<exists>x. err = Propagated x"
  unfolding read_base64_def
  by (auto dest!: then_do_fails call_fails split: if_splits)

lemma set_inference_ssl_from_file_fails:
  "snd (set_inference_ssl_from_file e ps c k) = Inl err \<Longrightarrow> \<exists>x. err = Propagated x"
  unfolding set_inference_ssl_from_file_def
  by (auto dest!: then_do_fails read_base64_fails)

lemma set_up_inference_ssl_fails:
  "snd (set_up_inference_ssl e cs ps) = Inl err \<Longrightarrow> \<exists>x. err = Propagated x"
  unfolding set_up_inference_ssl_def Let_def
  by (auto dest!: then_do_fails set_inference_ssl_from_file_fails split: if_splits)

lemma validate_scoring_fe_settings_fails:
  "snd (validate_scoring_fe_settings cs ps rn) = Inl err \<Longrightarrow>
     err = InvalidArgumentValueError (tls_message rn) \<or> (\<exists>m. err = MutuallyExclusiveArgumentError m)"
  unfolding validate_scoring_fe_settings_def Let_def
  by (auto dest!: then_do_fails split: if_splits)

lemma validate_config_fails:
  "snd (validate_config e cs ps rn) = Inl err \<Longrightarrow>
     (err = InvalidArgumentValueError ''Duplicate keys found.'' \<and> dup_keys cs ps \<noteq> []) \<or>
     (err = InvalidArgumentValueError enable_message \<and> dup_keys cs ps = [] \<and>
        \<not> str_lower_is (get_value_from_config_protected_config ENABLE_TRAINING cs ps) ''true'' \<and>
        \<not> str_lower_is (get_value_from_config_protected_config ENABLE_INFERENCE cs ps) ''true'') \<or>
     (err = InvalidArgumentValueError (tls_message rn) \<and> dup_keys cs ps = [] \<and>
        str_lower_is (get_value_from_config_protected_config ENABLE_INFERENCE cs ps) ''true'') \<or>
     (\<exists>m. err = MutuallyExclusiveArgumentError m) \<or> (\<exists>x. err = Propagated x)"
  unfolding validate_config_def Let_def
  by (auto dest!: then_do_fails validate_scoring_fe_settings_fails set_up_inference_ssl_fails
        split: if_splits prod.splits)

lemma get_valid_name_fails:
  "get_valid_name s n m = Inl err \<Longrightarrow> err = AssertionError ''normalized name empty''"
  by (simp add: get_valid_name_def Let_def split: if_splits)

lemma helper_fails:
  "snd (get_log_analytics_ws_connection_string e s rg cn loc g) = Inl err \<Longrightarrow>
     (\<exists>m. err = AssertionError m) \<or> (\<exists>x. err = Propagated x)"
  "snd (get_relay_connection_str e s rg cn loc a g) = Inl err \<Longrightarrow>
     (\<exists>m. err = AssertionError m) \<or> (\<exists>x. err = Propagated x)"
  "snd (get_service_bus_connection_string e s rg cn loc g) = Inl err \<Longrightarrow>
     (\<exists>m. err = AssertionError m) \<or> (\<exists>x. err = Propagated x)"
  unfolding get_log_analytics_ws_connection_string_def get_relay_connection_str_def
    get_service_bus_connection_string_def Let_def
  by (auto dest!: then_do_fails call_fails get_valid_name_fails split: sum.splits prod.splits)

lemma create_required_resource_fails:
  "snd (create_required_resource e cs ps s rg cn loc) = Inl err \<Longrightarrow>
     (\<exists>m. err = AssertionError m) \<or> (\<exists>x. err = Propagated x)"
  unfolding create_required_resource_def create_log_analytics_def create_relay_def
    create_service_bus_def
  by (auto dest!: then_do_fails helper_fails split: if_splits prod.splits)

lemma Create_fails:
  "snd (Create e rg cn name ct et scope au rt ver rn cs ps) = Inl err \<Longrightarrow>
     (err = InvalidArgumentValueError (scope_message ''namespace'') \<and> scope = Some ''namespace'') \<or>
     (scope \<noteq> Some ''namespace'' \<and>
      ((\<exists>rn'. snd (validate_config e cs ps rn') = Inl err) \<or>
       (\<exists>m. err = AssertionError m) \<or> (\<exists>x. err = Propagated x)))"
  unfolding Create_def Let_def
  by (auto dest!: then_do_fails call_fails create_required_resource_fails
        split: if_splits prod.splits sum.splits)

section \<open>Properties of the validation\<close>

lemma set_dup_keys: "set (dup_keys cs ps) = fst ` set cs \<inter> fst ` set ps"
  by (auto simp: dup_keys_def has_key_def map_of_eq_None_iff)

lemma dup_keys_Nil_iff: "dup_keys cs ps = [] \<longleftrightarrow> fst ` set cs \<inter> fst ` set ps = {}"
  using set_dup_keys [of cs ps] by (metis set_empty)


lemma get_value_update_other:
  "k \<noteq> k' \<Longrightarrow> get_value_from_config_protected_config k (AList.update k' v cs) ps
     = get_value_from_config_protected_config k cs ps"
  by (simp add: get_value_from_config_protected_config_def has_key_def dict_get_def update_conv')





lemma fst_then_do:
  "fst (then_do m f) = fst m @ (case snd m of Inl err \<Rightarrow> [] | Inr x \<Rightarrow> fst (f x))"
  by (cases m) (auto simp: then_do_def split: sum.splits prod.splits)

lemma Create_validate_fails:
  "scope \<noteq> Some ''namespace'' \<Longrightarrow>
   validate_config e cs ps (case rn of None \<Rightarrow> DEFAULT_RELEASE_NAMESPACE
      | Some ns \<Rightarrow> if ns = [] then DEFAULT_RELEASE_NAMESPACE else ns) = (evs, Inl err) \<Longrightarrow>
   Create e rg cn name ct et scope au rt ver rn cs ps = (evs, Inl err)"
  by (simp add: Create_def Let_def)

lemma validate_config_neither:
  "dup_keys cs ps = [] \<Longrightarrow>
   \<not> str_lower_is (get_value_from_config_protected_config ENABLE_TRAINING cs ps) ''true'' \<Longrightarrow>
   \<not> str_lower_is (get_value_from_config_protected_config ENABLE_INFERENCE cs ps) ''true'' \<Longrightarrow>
   validate_config e cs ps rn = ([], Inl (InvalidArgumentValueError enable_message))"
  by (simp add: validate_config_def throw_def)

lemma validate_config_training_only:
  "dup_keys cs ps = [] \<Longrightarrow>
   str_lower_is (get_value_from_config_protected_config ENABLE_TRAINING cs ps) ''true'' \<Longrightarrow>
   \<not> str_lower_is (get_value_from_config_protected_config ENABLE_INFERENCE cs ps) ''true'' \<Longrightarrow>
   validate_config e cs ps rn =
     ([], Inr (AList.update ENABLE_INFERENCE
                 (dict_get_default (AList.update ENABLE_TRAINING
                    (dict_get_default cs ENABLE_TRAINING (PBool True)) cs) ENABLE_INFERENCE (PBool False))
                 (AList.update ENABLE_TRAINING (dict_get_default cs ENABLE_TRAINING (PBool True)) cs),
               AList.delete ENABLE_INFERENCE (AList.delete ENABLE_TRAINING ps)))"
  by (simp add: validate_config_def ret_def then_do_Inr Let_def)

lemma validate_config_inference:
  "dup_keys cs ps = [] \<Longrightarrow>
   str_lower_is (get_value_from_config_protected_config ENABLE_INFERENCE cs ps) ''true'' \<Longrightarrow>
   \<exists>evs r. validate_config e cs ps rn = (experimental_warning # evs, r)"
proof -
  assume a: "dup_keys cs ps = []"
    "str_lower_is (get_value_from_config_protected_config ENABLE_INFERENCE cs ps) ''true''"
  have "fst (validate_config e cs ps rn) = experimental_warning # tl (fst (validate_config e cs ps rn))"
    using a by (simp add: validate_config_def Let_def fst_then_do then_do_emit)
  then show ?thesis by (metis prod.collapse)
qed

lemma enable_message_names_flags:
  "sublist ENABLE_TRAINING enable_message" "sublist ENABLE_INFERENCE enable_message"
  unfolding enable_message_def sq_def by code_simp+

section \<open>The claims about \<open>Create\<close>\<close>




text \<open>
  Claim C2, as amended. For every scope other than \<open>namespace\<close> and every configuration
  with disjoint key sets in which neither \<open>enableTraining\<close> nor \<open>enableInference\<close> (each
  read from the settings first, then from the protected settings) is true, \<open>Create\<close>
  fails at once with the invalid-argument error whose message names both flags. When at
  least one of the two is true this error is never raised: with training alone the
  validation succeeds, with inference it goes on to the checks for inference.
\<close>

theorem Create_training_or_inference:
  "(scope \<noteq> Some ''namespace'' \<and> fst ` set cs \<inter> fst ` set ps = {} \<and>
    \<not> str_lower_is (get_value_from_config_protected_config ENABLE_TRAINING cs ps) ''true'' \<and>
    \<not> str_lower_is (get_value_from_config_protected_config ENABLE_INFERENCE cs ps) ''true'' \<longrightarrow>
      Create e rg cn name ct et scope au rt ver rn cs ps =
        ([], Inl (InvalidArgumentValueError enable_message))) \<and>
   sublist ENABLE_TRAINING enable_message \<and> sublist ENABLE_INFERENCE enable_message \<and>
   (str_lower_is (get_value_from_config_protected_config ENABLE_TRAINING cs ps) ''true'' \<or>
    str_lower_is (get_value_from_config_protected_config ENABLE_INFERENCE cs ps) ''true'' \<longrightarrow>
      snd (Create e rg cn name ct et scope au rt ver rn cs ps)
        \<noteq> Inl (InvalidArgumentValueError enable_message)) \<and>
   (fst ` set cs \<inter> fst ` set ps = {} \<and>
    str_lower_is (get_value_from_config_protected_config ENABLE_TRAINING cs ps) ''true'' \<and>
    \<not> str_lower_is (get_value_from_config_protected_config ENABLE_INFERENCE cs ps) ''true'' \<longrightarrow>
      (\<exists>cs'. validate_config e cs ps rn' =
         ([], Inr (cs', AList.delete ENABLE_INFERENCE (AList.delete ENABLE_TRAINING ps))))) \<and>
   (fst ` set cs \<inter> fst ` set ps = {} \<and>
    str_lower_is (get_value_from_config_protected_config ENABLE_INFERENCE cs ps) ''true'' \<longrightarrow>
      (\<exists>evs r. validate_config e cs ps rn' = (experimental_warning # evs, r)))"
proof (intro conjI impI)
  assume a: "scope \<noteq> Some ''namespace'' \<and> fst ` set cs \<inter> fst ` set ps = {} \<and>
    \<not> str_lower_is (get_value_from_config_protected_config ENABLE_TRAINING cs ps) ''true'' \<and>
    \<not> str_lower_is (get_value_from_config_protected_config ENABLE_INFERENCE cs ps) ''true''"
  then have "dup_keys cs ps = []" by (simp add: dup_keys_Nil_iff)
  then show "Create e rg cn name ct et scope au rt ver rn cs ps =
        ([], Inl (InvalidArgumentValueError enable_message))"
    using a by (intro Create_validate_fails validate_config_neither) simp_all
next
  show "sublist ENABLE_TRAINING enable_message" by (rule enable_message_names_flags)
next
  show "sublist ENABLE_INFERENCE enable_message" by (rule enable_message_names_flags)
next
  assume a: "str_lower_is (get_value_from_config_protected_config ENABLE_TRAINING cs ps) ''true'' \<or>
    str_lower_is (get_value_from_config_protected_config ENABLE_INFERENCE cs ps) ''true''"
  show "snd (Create e rg cn name ct et scope au rt ver rn cs ps)
        \<noteq> Inl (InvalidArgumentValueError enable_message)"
  proof
    assume "snd (Create e rg cn name ct et scope au rt ver rn cs ps)
        = Inl (InvalidArgumentValueError enable_message)"
    from Create_fails [OF this] show False
      using a
      by (auto simp: scope_message_def enable_message_def tls_message_def dest!: validate_config_fails)
  qed
next
  assume "fst ` set cs \<inter> fst ` set ps = {} \<and>
    str_lower_is (get_value_from_config_protected_config ENABLE_TRAINING cs ps) ''true'' \<and>
    \<not> str_lower_is (get_value_from_config_protected_config ENABLE_INFERENCE cs ps) ''true''"
  then show "\<exists>cs'. validate_config e cs ps rn' =
         ([], Inr (cs', AList.delete ENABLE_INFERENCE (AList.delete ENABLE_TRAINING ps)))"
    by (simp add: dup_keys_Nil_iff validate_config_training_only)
next
  assume "fst ` set cs \<inter> fst ` set ps = {} \<and>
    str_lower_is (get_value_from_config_protected_config ENABLE_INFERENCE cs ps) ''true''"
  then show "\<exists>evs r. validate_config e cs ps rn' = (experimental_warning # evs, r)"
    by (simp add: dup_keys_Nil_iff validate_config_inference)
qed

theorem Create_training_or_inference_witness:
  "Some ''cluster'' \<noteq> Some ''namespace'' \<and>
   fst ` set ([] :: config) \<inter> fst ` set ([] :: config) = {} \<and>
   \<not> str_lower_is (get_value_from_config_protected_config ENABLE_TRAINING [] []) ''true'' \<and>
   \<not> str_lower_is (get_value_from_config_protected_config ENABLE_INFERENCE [] []) ''true'' \<and>
   Create env0 ''rg'' ''c1'' ''ext'' ''connectedClusters'' ''Microsoft.AzureML.Kubernetes''
     (Some ''cluster'') True None None None [] [] =
     ([], Inl (InvalidArgumentValueError enable_message)) \<and>
   str_lower_is (get_value_from_config_protected_config ENABLE_TRAINING
     [(ENABLE_TRAINING, PStr ''True'')] []) ''true'' \<and>
   \<not> str_lower_is (get_value_from_config_protected_config ENABLE_INFERENCE
     [(ENABLE_TRAINING, PStr ''True'')] []) ''true'' \<and>
   snd (Create env0 ''rg'' ''c1'' ''ext'' ''connectedClusters'' ''Microsoft.AzureML.Kubernetes''
     (Some ''cluster'') True None None None [(ENABLE_TRAINING, PStr ''True'')] [])
     \<noteq> Inl (InvalidArgumentValueError enable_message) \<and>
   (\<exists>cs'. validate_config env0 [(ENABLE_TRAINING, PStr ''True'')] [] DEFAULT_RELEASE_NAMESPACE =
      ([], Inr (cs', AList.delete ENABLE_INFERENCE (AList.delete ENABLE_TRAINING [])))) \<and>
   str_lower_is (get_value_from_config_protected_config ENABLE_INFERENCE
     [] [(ENABLE_INFERENCE, PBool True)]) ''true'' \<and>
   (\<exists>evs r. validate_config env0 [] [(ENABLE_INFERENCE, PBool True)] DEFAULT_RELEASE_NAMESPACE =
      (experimental_warning # evs, r))"
proof -
  have h:
    "\<not> str_lower_is (get_value_from_config_protected_config ENABLE_TRAINING [] []) ''true''"
    "\<not> str_lower_is (get_value_from_config_protected_config ENABLE_INFERENCE [] []) ''true''"
    "str_lower_is (get_value_from_config_protected_config ENABLE_TRAINING
       [(ENABLE_TRAINING, PStr ''True'')] []) ''true''"
    "\<not> str_lower_is (get_value_from_config_protected_config ENABLE_INFERENCE
       [(ENABLE_TRAINING, PStr ''True'')] []) ''true''"
    "str_lower_is (get_value_from_config_protected_config ENABLE_INFERENCE
       [] [(ENABLE_INFERENCE, PBool True)]) ''true''"
    by code_simp+
  have d: "fst ` set ([] :: config) \<inter> fst ` set ([] :: config) = {}"
    "fst ` set [(ENABLE_TRAINING, PStr ''True'')] \<inter> fst ` set ([] :: config) = {}"
    "fst ` set ([] :: config) \<inter> fst ` set [(ENABLE_INFERENCE, PBool True)] = {}"
    by simp_all
  show ?thesis
    using h d
      Create_training_or_inference [where scope = "Some ''cluster''" and cs = "[]" and ps = "[]"
        and e = env0 and rg = "''rg''" and cn = "''c1''" and name = "''ext''"
        and ct = "''connectedClusters''" and et = "''Microsoft.AzureML.Kubernetes''"
        and au = True and rt = None and ver = None and rn = None
        and rn' = DEFAULT_RELEASE_NAMESPACE]
      Create_training_or_inference [where scope = "Some ''cluster''"
        and cs = "[(ENABLE_TRAINING, PStr ''True'')]" and ps = "[]"
        and e = env0 and rg = "''rg''" and cn = "''c1''" and name = "''ext''"
        and ct = "''connectedClusters''" and et = "''Microsoft.AzureML.Kubernetes''"
        and au = True and rt = None and ver = None and rn = None
        and rn' = DEFAULT_RELEASE_NAMESPACE]
      Create_training_or_inference [where scope = "Some ''cluster''"
        and cs = "[]" and ps = "[(ENABLE_INFERENCE, PBool True)]"
        and e = env0 and rg = "''rg''" and cn = "''c1''" and name = "''ext''"
        and ct = "''connectedClusters''" and et = "''Microsoft.AzureML.Kubernetes''"
        and au = True and rt = None and ver = None and rn = None
        and rn' = DEFAULT_RELEASE_NAMESPACE]
    by simp
qed

text \<open>
  Claim C2 as stated fails for a configuration whose maps share a key: neither flag is
  true, and \<open>Create\<close> fails with the duplicate-key error, whose message names neither flag.
\<close>

theorem Create_training_or_inference_counterexample:
  "\<not> str_lower_is (get_value_from_config_protected_config ENABLE_TRAINING
       [(''a'', PStr ''1'')] [(''a'', PStr ''2'')]) ''true'' \<and>
   \<not> str_lower_is (get_value_from_config_protected_config ENABLE_INFERENCE
       [(''a'', PStr ''1'')] [(''a'', PStr ''2'')]) ''true'' \<and>
   Create env0 ''rg'' ''c1'' ''ext'' ''connectedClusters'' ''Microsoft.AzureML.Kubernetes''
     (Some ''cluster'') True None None None [(''a'', PStr ''1'')] [(''a'', PStr ''2'')] =
     ([dup_warning ''a''], Inl (InvalidArgumentValueError ''Duplicate keys found.'')) \<and>
   \<not> sublist ENABLE_TRAINING ''Duplicate keys found.'' \<and>
   \<not> sublist ENABLE_INFERENCE ''Duplicate keys found.''"
  by code_simp

text \<open>
  Claim C4 is right and the code is not: the default for \<open>domain\<close> is looked up under the
  misspelt key \<open>doamin\<close>, so a \<open>domain\<close> set by the caller is overwritten. Here the caller
  sets \<open>domain\<close> to \<open>example.com\<close>, the cluster is in \<open>EastUS\<close>, and the extension
  that \<open>Create\<close> returns has the domain \<open>eastus.cloudapp.azure.com\<close>.
\<close>

theorem Create_domain_overwritten:
  "map_of [(ENABLE_TRAINING, PStr ''true''), (''domain'', PStr ''example.com'')] ''domain''
     = Some (PStr ''example.com'') \<and>
   \<not> isl (snd (Create env0 ''rg'' ''c1'' ''ext'' ''connectedClusters''
       ''Microsoft.AzureML.Kubernetes'' (Some ''cluster'') True None None None
       [(ENABLE_TRAINING, PStr ''true''), (''domain'', PStr ''example.com'')] [])) \<and>
   map_of (ext_configuration_settings (fst (projr (snd (Create env0 ''rg'' ''c1'' ''ext''
       ''connectedClusters'' ''Microsoft.AzureML.Kubernetes'' (Some ''cluster'') True None None None
       [(ENABLE_TRAINING, PStr ''true''), (''domain'', PStr ''example.com'')] []))))) ''domain''
     = Some (PStr ''eastus.cloudapp.azure.com'')"
  by code_simp

text \<open>
  Claim C5, as amended. \<open>Create\<close> fails with the invalid-scope error exactly when the
  scope is \<open>namespace\<close>, before anything else happens. For every other scope, given or
  omitted, it goes past the scope check and behaves exactly as it does for the scope
  \<open>cluster\<close>.
\<close>

theorem Create_scope:
  "(scope = Some ''namespace'' \<longrightarrow>
      Create e rg cn name ct et scope au rt ver rn cs ps =
        ([], Inl (InvalidArgumentValueError (scope_message ''namespace'')))) \<and>
   (scope \<noteq> Some ''namespace'' \<longrightarrow>
      Create e rg cn name ct et scope au rt ver rn cs ps =
        Create e rg cn name ct et (Some ''cluster'') au rt ver rn cs ps \<and>
      snd (Create e rg cn name ct et scope au rt ver rn cs ps)
        \<noteq> Inl (InvalidArgumentValueError (scope_message ''namespace'')))"
proof (intro conjI impI)
  assume "scope = Some ''namespace''"
  then show "Create e rg cn name ct et scope au rt ver rn cs ps =
        ([], Inl (InvalidArgumentValueError (scope_message ''namespace'')))"
    by (simp add: Create_def throw_def)
next
  assume "scope \<noteq> Some ''namespace''"
  then show "Create e rg cn name ct et scope au rt ver rn cs ps =
        Create e rg cn name ct et (Some ''cluster'') au rt ver rn cs ps"
    by (simp add: Create_def)
next
  assume ns: "scope \<noteq> Some ''namespace''"
  show "snd (Create e rg cn name ct et scope au rt ver rn cs ps)
        \<noteq> Inl (InvalidArgumentValueError (scope_message ''namespace''))"
  proof
    assume "snd (Create e rg cn name ct et scope au rt ver rn cs ps)
        = Inl (InvalidArgumentValueError (scope_message ''namespace''))"
    from Create_fails [OF this] show False
      using ns
      by (auto simp: scope_message_def enable_message_def tls_message_def dest!: validate_config_fails)
  qed
qed

theorem Create_scope_witness:
  "Create env0 ''rg'' ''c1'' ''ext'' ''connectedClusters'' ''Microsoft.AzureML.Kubernetes''
     (Some ''namespace'') True None None None [(ENABLE_TRAINING, PStr ''true'')] [] =
     ([], Inl (InvalidArgumentValueError (scope_message ''namespace''))) \<and>
   Some ''Cluster'' \<noteq> Some ''namespace'' \<and>
   Create env0 ''rg'' ''c1'' ''ext'' ''connectedClusters'' ''Microsoft.AzureML.Kubernetes''
     (Some ''Cluster'') True None None None [(ENABLE_TRAINING, PStr ''true'')] [] =
   Create env0 ''rg'' ''c1'' ''ext'' ''connectedClusters'' ''Microsoft.AzureML.Kubernetes''
     (Some ''cluster'') True None None None [(ENABLE_TRAINING, PStr ''true'')] [] \<and>
   snd (Create env0 ''rg'' ''c1'' ''ext'' ''connectedClusters'' ''Microsoft.AzureML.Kubernetes''
     (Some ''Cluster'') True None None None [(ENABLE_TRAINING, PStr ''true'')] [])
     \<noteq> Inl (InvalidArgumentValueError (scope_message ''namespace''))"
  using Create_scope [where scope = "Some ''namespace''" and e = env0 and rg = "''rg''"
      and cn = "''c1''" and name = "''ext''" and ct = "''connectedClusters''"
      and et = "''Microsoft.AzureML.Kubernetes''" and au = True and rt = None and ver = None
      and rn = None and cs = "[(ENABLE_TRAINING, PStr ''true'')]" and ps = "[]"]
    Create_scope [where scope = "Some ''Cluster''" and e = env0 and rg = "''rg''"
      and cn = "''c1''" and name = "''ext''" and ct = "''connectedClusters''"
      and et = "''Microsoft.AzureML.Kubernetes''" and au = True and rt = None and ver = None
      and rn = None and cs = "[(ENABLE_TRAINING, PStr ''true'')]" and ps = "[]"]
  by blast

text \<open>
  Claim C5 as stated fails for every scope that is neither \<open>cluster\<close> nor \<open>namespace\<close>:
  with the scope \<open>foo\<close>, and with no scope at all, \<open>Create\<close> succeeds.
\<close>

theorem Create_scope_counterexample:
  "Some ''foo'' \<noteq> Some ''cluster'' \<and>
   \<not> isl (snd (Create env0 ''rg'' ''c1'' ''ext'' ''connectedClusters'' ''Microsoft.AzureML.Kubernetes''
     (Some ''foo'') True None None None [(ENABLE_TRAINING, PStr ''true'')] [])) \<and>
   (None :: string option) \<noteq> Some ''cluster'' \<and>
   \<not> isl (snd (Create env0 ''rg'' ''c1'' ''ext'' ''connectedClusters'' ''Microsoft.AzureML.Kubernetes''
     None True None None None [(ENABLE_TRAINING, PStr ''true'')] []))"
  by code_simp

lemma truthy_py_or_and:
  "truthy (py_or (py_and a b) c) \<longleftrightarrow> (truthy a \<and> truthy b) \<or> truthy c"
  by (simp add: py_or_def py_and_def)

lemma dereference_untouched:
  "k \<notin> set (concat (map snd ref)) \<Longrightarrow> map_of (dereference ref d) k = map_of d k"
proof (induction ref arbitrary: d)
  case Nil
  then show ?case by simp
next
  case (Cons entry ref)
  obtain rk rl where entry: "entry = (rk, rl)" by (cases entry)
  have "k \<notin> set rl" and rest: "k \<notin> set (concat (map snd ref))"
    using Cons.prems entry by auto
  then show ?case
    using Cons.IH entry by (simp add: dereference_keys_untouched split: option.splits)
qed











section \<open>Properties of \<open>Update\<close>\<close>

lemma normalize_config_succeeds: "\<exists>cs'. snd (normalize_config cs ps) = Inr cs'"
  by (simp add: normalize_config_def Let_def snd_then_do)

lemma update_confirm_succeeds:
  "\<forall>message. user_confirmation e yes message = None \<Longrightarrow> snd (update_confirm e yes cs ps) = Inr ()"
  by (simp add: update_confirm_def snd_then_do split: option.splits)

lemma snd_Update:
  assumes "\<forall>message. user_confirmation e yes message = None" and "ps \<noteq> []"
  shows "snd (Update e rg cn au rt ver cs ps yes) =
     (case snd (update_protected_settings e rg cn ps) of
        Inl err \<Rightarrow> Inl err
      | Inr ps' \<Rightarrow>
          Inr \<lparr>patch_auto_upgrade_minor_version = au, patch_release_train = rt,
               patch_version = ver,
               patch_configuration_settings = projr (snd (normalize_config cs ps)),
               patch_configuration_protected_settings = ps'\<rparr>)"
proof -
  obtain cs' where n: "snd (normalize_config cs ps) = Inr cs'"
    using normalize_config_succeeds by blast
  show ?thesis
    using assms n
    by (simp add: Update_def snd_then_do update_confirm_succeeds split: sum.splits)
qed

lemma update_log_analytics_skips:
  "has_key ps AZURE_LOG_ANALYTICS_CONNECTION_STRING \<Longrightarrow> update_log_analytics e rg cn ps = ([], Inr ps)"
  by (simp add: update_log_analytics_def ret_def)

lemma update_log_analytics_nonfatal:
  "\<not> has_key ps AZURE_LOG_ANALYTICS_CONNECTION_STRING \<Longrightarrow>
   get_log_analytics_ws_connection_string e (subscription_id e) rg cn [] True
     = (evs, Inl (Propagated (HttpResponseError status))) \<Longrightarrow>
   update_log_analytics e rg cn ps
     = (evs @ [Info ''Failed to get log analytics connection string.''], Inr ps)"
  by (simp add: update_log_analytics_def)

lemma update_log_analytics_keys:
  "snd (update_log_analytics e rg cn ps) = Inr ps1 \<Longrightarrow> k \<noteq> AZURE_LOG_ANALYTICS_CONNECTION_STRING \<Longrightarrow>
   map_of ps1 k = map_of ps k"
  by (auto simp: update_log_analytics_def ret_def update_conv'
        split: if_splits prod.splits sum.splits error.splits exn.splits)

lemma update_relay_fatal:
  "\<not> has_key ps RELAY_SERVER_CONNECTION_STRING \<Longrightarrow>
   get_relay_connection_str e (subscription_id e) rg cn [] RELAY_HC_AUTH_NAME True
     = (evs, Inl (Propagated (ErrorResponseException status))) \<Longrightarrow>
   update_relay e rg cn ps =
     (evs, Inl (if status = 404 then ResourceNotFoundError ''Relay server not found.''
                else AzureResponseError ''Failed to get relay connection string.''))"
  by (simp add: update_relay_def)

lemma update_relay_keys:
  "snd (update_relay e rg cn ps) = Inr ps1 \<Longrightarrow> k \<noteq> RELAY_SERVER_CONNECTION_STRING \<Longrightarrow>
   map_of ps1 k = map_of ps k"
  by (auto simp: update_relay_def ret_def update_conv'
        split: if_splits prod.splits sum.splits error.splits exn.splits)

lemma update_service_bus_fatal:
  "\<not> has_key ps SERVICE_BUS_CONNECTION_STRING \<Longrightarrow>
   get_service_bus_connection_string e (subscription_id e) rg cn [] True
     = (evs, Inl (Propagated (HttpResponseError status))) \<Longrightarrow>
   update_service_bus e rg cn ps =
     (evs, Inl (if status = 404 then ResourceNotFoundError ''Service bus not found.''
                else AzureResponseError ''Failed to get service bus connection string.''))"
  by (simp add: update_service_bus_def)

lemma has_key_dereference:
  "k \<notin> set (concat (map snd ref)) \<Longrightarrow> has_key (dereference ref d) k = has_key d k"
  by (simp add: has_key_def dereference_untouched)

lemma update_ssl_skips:
  "\<not> (has_key ps sslKeyPemFile \<and> has_key ps sslCertPemFile) \<Longrightarrow>
   update_ssl e ps = ([], Inr (dereference reference_mapping ps))"
proof -
  assume a: "\<not> (has_key ps sslKeyPemFile \<and> has_key ps sslCertPemFile)"
  have "has_key (dereference reference_mapping ps) sslKeyPemFile = has_key ps sslKeyPemFile"
    by (rule has_key_dereference) (simp add: reference_mapping_def)
  moreover have "has_key (dereference reference_mapping ps) sslCertPemFile = has_key ps sslCertPemFile"
    by (rule has_key_dereference) (simp add: reference_mapping_def)
  ultimately show ?thesis
    using a by (auto simp add: update_ssl_def Let_def ret_def)
qed

lemma update_relay_skips:
  "has_key ps RELAY_SERVER_CONNECTION_STRING \<Longrightarrow> update_relay e rg cn ps = ([], Inr ps)"
  by (simp add: update_relay_def ret_def)

lemma update_service_bus_skips:
  "has_key ps SERVICE_BUS_CONNECTION_STRING \<Longrightarrow> update_service_bus e rg cn ps = ([], Inr ps)"
  by (simp add: update_service_bus_def ret_def)

lemma fst_Update_protected:
  "ps \<noteq> [] \<Longrightarrow> snd (normalize_config cs ps) = Inr cs' \<Longrightarrow>
   snd (if length cs' > 0 then update_confirm e yes cs' ps else ret ()) = Inr () \<Longrightarrow>
   set (fst (update_protected_settings e rg cn ps)) \<subseteq> set (fst (Update e rg cn au rt ver cs ps yes))"
  by (auto simp: Update_def fst_then_do)


text \<open>
  Claim C6, as amended. During \<open>Update\<close>, with protected settings that are not empty
  and the confirmation given: when the Log Analytics key is absent, a failure of its
  lookup with an HTTP response error of any status, not found or other, is logged and
  leaves the key absent, and \<open>Update\<close> goes on (it succeeds when nothing else is left to
  look up); when the Relay key is absent and its lookup fails with an error response, or
  the Service Bus key is absent and its lookup fails with an HTTP response error,
  \<open>Update\<close> fails: with a resource-not-found error for status 404, with an Azure
  response error for any other status.
\<close>

theorem Update_lookup_failures:
  "(\<not> has_key ps AZURE_LOG_ANALYTICS_CONNECTION_STRING \<and>
    get_log_analytics_ws_connection_string e (subscription_id e) rg cn [] True
      = (evs_la, Inl (Propagated (HttpResponseError status_la))) \<longrightarrow>
      update_log_analytics e rg cn ps
        = (evs_la @ [Info ''Failed to get log analytics connection string.''], Inr ps)) \<and>
   ((\<forall>message. user_confirmation e yes message = None) \<and> ps \<noteq> [] \<and>
    \<not> has_key ps AZURE_LOG_ANALYTICS_CONNECTION_STRING \<and>
    get_log_analytics_ws_connection_string e (subscription_id e) rg cn [] True
      = (evs_la, Inl (Propagated (HttpResponseError status_la))) \<and>
    has_key ps RELAY_SERVER_CONNECTION_STRING \<and> has_key ps SERVICE_BUS_CONNECTION_STRING \<and>
    \<not> (has_key ps sslKeyPemFile \<and> has_key ps sslCertPemFile) \<longrightarrow>
      snd (Update e rg cn au rt ver cs ps yes) =
        Inr \<lparr>patch_auto_upgrade_minor_version = au, patch_release_train = rt,
             patch_version = ver,
             patch_configuration_settings = projr (snd (normalize_config cs ps)),
             patch_configuration_protected_settings = dereference reference_mapping ps\<rparr> \<and>
      \<not> has_key (dereference reference_mapping ps) AZURE_LOG_ANALYTICS_CONNECTION_STRING \<and>
      Info ''Failed to get log analytics connection string.''
        \<in> set (fst (Update e rg cn au rt ver cs ps yes))) \<and>
   ((\<forall>message. user_confirmation e yes message = None) \<and> ps \<noteq> [] \<and>
    snd (update_log_analytics e rg cn ps) = Inr ps_la \<and>
    \<not> has_key ps RELAY_SERVER_CONNECTION_STRING \<and>
    get_relay_connection_str e (subscription_id e) rg cn [] RELAY_HC_AUTH_NAME True
      = (evs_relay, Inl (Propagated (ErrorResponseException status_relay))) \<longrightarrow>
      snd (Update e rg cn au rt ver cs ps yes) =
        Inl (if status_relay = 404 then ResourceNotFoundError ''Relay server not found.''
             else AzureResponseError ''Failed to get relay connection string.'')) \<and>
   ((\<forall>message. user_confirmation e yes message = None) \<and> ps \<noteq> [] \<and>
    snd (update_log_analytics e rg cn ps) = Inr ps_la \<and>
    snd (update_relay e rg cn ps_la) = Inr ps_relay \<and>
    \<not> has_key ps SERVICE_BUS_CONNECTION_STRING \<and>
    get_service_bus_connection_string e (subscription_id e) rg cn [] True
      = (evs_sb, Inl (Propagated (HttpResponseError status_sb))) \<longrightarrow>
      snd (Update e rg cn au rt ver cs ps yes) =
        Inl (if status_sb = 404 then ResourceNotFoundError ''Service bus not found.''
             else AzureResponseError ''Failed to get service bus connection string.''))"
proof (intro conjI impI)
  assume "\<not> has_key ps AZURE_LOG_ANALYTICS_CONNECTION_STRING \<and>
    get_log_analytics_ws_connection_string e (subscription_id e) rg cn [] True
      = (evs_la, Inl (Propagated (HttpResponseError status_la)))"
  then show "update_log_analytics e rg cn ps
        = (evs_la @ [Info ''Failed to get log analytics connection string.''], Inr ps)"
    by (simp add: update_log_analytics_nonfatal)
next
  assume a: "(\<forall>message. user_confirmation e yes message = None) \<and> ps \<noteq> [] \<and>
    \<not> has_key ps AZURE_LOG_ANALYTICS_CONNECTION_STRING \<and>
    get_log_analytics_ws_connection_string e (subscription_id e) rg cn [] True
      = (evs_la, Inl (Propagated (HttpResponseError status_la))) \<and>
    has_key ps RELAY_SERVER_CONNECTION_STRING \<and> has_key ps SERVICE_BUS_CONNECTION_STRING \<and>
    \<not> (has_key ps sslKeyPemFile \<and> has_key ps sslCertPemFile)"
  then have block: "update_protected_settings e rg cn ps =
      (evs_la @ [Info ''Failed to get log analytics connection string.''],
       Inr (dereference reference_mapping ps))"
    by (simp add: update_protected_settings_def update_log_analytics_nonfatal then_do_Inr
          update_relay_skips update_service_bus_skips update_ssl_skips)
  then show "snd (Update e rg cn au rt ver cs ps yes) =
        Inr \<lparr>patch_auto_upgrade_minor_version = au, patch_release_train = rt,
             patch_version = ver,
             patch_configuration_settings = projr (snd (normalize_config cs ps)),
             patch_configuration_protected_settings = dereference reference_mapping ps\<rparr>"
    using a by (simp add: snd_Update)
  obtain cs' where n: "snd (normalize_config cs ps) = Inr cs'"
    using normalize_config_succeeds by blast
  have "set (fst (update_protected_settings e rg cn ps)) \<subseteq> set (fst (Update e rg cn au rt ver cs ps yes))"
    using a n by (intro fst_Update_protected) (simp_all add: update_confirm_succeeds)
  then show "Info ''Failed to get log analytics connection string.''
        \<in> set (fst (Update e rg cn au rt ver cs ps yes))"
    using block by auto
  have "has_key (dereference reference_mapping ps) AZURE_LOG_ANALYTICS_CONNECTION_STRING
      = has_key ps AZURE_LOG_ANALYTICS_CONNECTION_STRING"
    by (rule has_key_dereference) (simp add: reference_mapping_def)
  then show "\<not> has_key (dereference reference_mapping ps) AZURE_LOG_ANALYTICS_CONNECTION_STRING"
    using a by simp
next
  assume a: "(\<forall>message. user_confirmation e yes message = None) \<and> ps \<noteq> [] \<and>
    snd (update_log_analytics e rg cn ps) = Inr ps_la \<and>
    \<not> has_key ps RELAY_SERVER_CONNECTION_STRING \<and>
    get_relay_connection_str e (subscription_id e) rg cn [] RELAY_HC_AUTH_NAME True
      = (evs_relay, Inl (Propagated (ErrorResponseException status_relay)))"
  then have "map_of ps_la RELAY_SERVER_CONNECTION_STRING = map_of ps RELAY_SERVER_CONNECTION_STRING"
    by (intro update_log_analytics_keys [where e = e and rg = rg and cn = cn]) simp_all
  then have "\<not> has_key ps_la RELAY_SERVER_CONNECTION_STRING"
    using a by (simp add: has_key_def)
  then have "update_relay e rg cn ps_la =
     (evs_relay, Inl (if status_relay = 404 then ResourceNotFoundError ''Relay server not found.''
                else AzureResponseError ''Failed to get relay connection string.''))"
    using a by (simp add: update_relay_fatal)
  then have "snd (update_protected_settings e rg cn ps) =
      Inl (if status_relay = 404 then ResourceNotFoundError ''Relay server not found.''
           else AzureResponseError ''Failed to get relay connection string.'')"
    using a by (simp add: update_protected_settings_def snd_then_do)
  then show "snd (Update e rg cn au rt ver cs ps yes) =
        Inl (if status_relay = 404 then ResourceNotFoundError ''Relay server not found.''
             else AzureResponseError ''Failed to get relay connection string.'')"
    using a by (simp add: snd_Update)
next
  assume a: "(\<forall>message. user_confirmation e yes message = None) \<and> ps \<noteq> [] \<and>
    snd (update_log_analytics e rg cn ps) = Inr ps_la \<and>
    snd (update_relay e rg cn ps_la) = Inr ps_relay \<and>
    \<not> has_key ps SERVICE_BUS_CONNECTION_STRING \<and>
    get_service_bus_connection_string e (subscription_id e) rg cn [] True
      = (evs_sb, Inl (Propagated (HttpResponseError status_sb)))"
  then have "map_of ps_la SERVICE_BUS_CONNECTION_STRING = map_of ps SERVICE_BUS_CONNECTION_STRING"
    by (intro update_log_analytics_keys [where e = e and rg = rg and cn = cn]) simp_all
  moreover have "map_of ps_relay SERVICE_BUS_CONNECTION_STRING = map_of ps_la SERVICE_BUS_CONNECTION_STRING"
    using a by (intro update_relay_keys [where e = e and rg = rg and cn = cn]) simp_all
  ultimately have "\<not> has_key ps_relay SERVICE_BUS_CONNECTION_STRING"
    using a by (simp add: has_key_def)
  then have "update_service_bus e rg cn ps_relay =
     (evs_sb, Inl (if status_sb = 404 then ResourceNotFoundError ''Service bus not found.''
                else AzureResponseError ''Failed to get service bus connection string.''))"
    using a by (simp add: update_service_bus_fatal)
  then have "snd (update_protected_settings e rg cn ps) =
      Inl (if status_sb = 404 then ResourceNotFoundError ''Service bus not found.''
           else AzureResponseError ''Failed to get service bus connection string.'')"
    using a by (simp add: update_protected_settings_def snd_then_do)
  then show "snd (Update e rg cn au rt ver cs ps yes) =
        Inl (if status_sb = 404 then ResourceNotFoundError ''Service bus not found.''
             else AzureResponseError ''Failed to get service bus connection string.'')"
    using a by (simp add: snd_Update)
qed

theorem Update_lookup_failures_witness:
  "(\<forall>message. user_confirmation env_log_analytics_down False message = None) \<and>
   [(RELAY_SERVER_CONNECTION_STRING, PStr ''r''), (SERVICE_BUS_CONNECTION_STRING, PStr ''s'')] \<noteq> [] \<and>
   \<not> has_key [(RELAY_SERVER_CONNECTION_STRING, PStr ''r''), (SERVICE_BUS_CONNECTION_STRING, PStr ''s'')]
       AZURE_LOG_ANALYTICS_CONNECTION_STRING \<and>
   get_log_analytics_ws_connection_string env_log_analytics_down
       (subscription_id env_log_analytics_down) ''rg'' ''c1'' [] True
     = ([LogAnalyticsCall ''rg'' ''c1sub1rg'' [] True], Inl (Propagated (HttpResponseError 500))) \<and>
   has_key [(RELAY_SERVER_CONNECTION_STRING, PStr ''r''), (SERVICE_BUS_CONNECTION_STRING, PStr ''s'')]
       RELAY_SERVER_CONNECTION_STRING \<and>
   has_key [(RELAY_SERVER_CONNECTION_STRING, PStr ''r''), (SERVICE_BUS_CONNECTION_STRING, PStr ''s'')]
       SERVICE_BUS_CONNECTION_STRING \<and>
   \<not> (has_key [(RELAY_SERVER_CONNECTION_STRING, PStr ''r''), (SERVICE_BUS_CONNECTION_STRING, PStr ''s'')]
         sslKeyPemFile \<and>
      has_key [(RELAY_SERVER_CONNECTION_STRING, PStr ''r''), (SERVICE_BUS_CONNECTION_STRING, PStr ''s'')]
         sslCertPemFile) \<and>
   update_log_analytics env_log_analytics_down ''rg'' ''c1''
       [(RELAY_SERVER_CONNECTION_STRING, PStr ''r''), (SERVICE_BUS_CONNECTION_STRING, PStr ''s'')]
     = ([LogAnalyticsCall ''rg'' ''c1sub1rg'' [] True] @
          [Info ''Failed to get log analytics connection string.''],
        Inr [(RELAY_SERVER_CONNECTION_STRING, PStr ''r''), (SERVICE_BUS_CONNECTION_STRING, PStr ''s'')]) \<and>
   snd (Update env_log_analytics_down ''rg'' ''c1'' None None None []
       [(RELAY_SERVER_CONNECTION_STRING, PStr ''r''), (SERVICE_BUS_CONNECTION_STRING, PStr ''s'')] False) =
     Inr \<lparr>patch_auto_upgrade_minor_version = None, patch_release_train = None,
          patch_version = None,
          patch_configuration_settings = projr (snd (normalize_config []
            [(RELAY_SERVER_CONNECTION_STRING, PStr ''r''), (SERVICE_BUS_CONNECTION_STRING, PStr ''s'')])),
          patch_configuration_protected_settings = dereference reference_mapping
            [(RELAY_SERVER_CONNECTION_STRING, PStr ''r''), (SERVICE_BUS_CONNECTION_STRING, PStr ''s'')]\<rparr> \<and>
   Info ''Failed to get log analytics connection string.''
     \<in> set (fst (Update env_log_analytics_down ''rg'' ''c1'' None None None []
       [(RELAY_SERVER_CONNECTION_STRING, PStr ''r''), (SERVICE_BUS_CONNECTION_STRING, PStr ''s'')] False)) \<and>
   (\<forall>message. user_confirmation env_relay_missing False message = None) \<and>
   [(''foo'', PStr ''bar'')] \<noteq> [] \<and>
   snd (update_log_analytics env_relay_missing ''rg'' ''c1'' [(''foo'', PStr ''bar'')])
     = Inr [(''foo'', PStr ''bar''), (AZURE_LOG_ANALYTICS_CONNECTION_STRING, PStr ''lakey'')] \<and>
   \<not> has_key [(''foo'', PStr ''bar'')] RELAY_SERVER_CONNECTION_STRING \<and>
   get_relay_connection_str env_relay_missing (subscription_id env_relay_missing) ''rg'' ''c1'' []
       RELAY_HC_AUTH_NAME True
     = ([RelayCall ''rg'' ''c1sub1rgrelay'' ''c1'' [] True],
        Inl (Propagated (ErrorResponseException 404))) \<and>
   snd (Update env_relay_missing ''rg'' ''c1'' None None None [] [(''foo'', PStr ''bar'')] False) =
     Inl (ResourceNotFoundError ''Relay server not found.'') \<and>
   (\<forall>message. user_confirmation env_service_bus_missing False message = None) \<and>
   snd (update_log_analytics env_service_bus_missing ''rg'' ''c1'' [(''foo'', PStr ''bar'')])
     = Inr [(''foo'', PStr ''bar''), (AZURE_LOG_ANALYTICS_CONNECTION_STRING, PStr ''lakey'')] \<and>
   snd (update_relay env_service_bus_missing ''rg'' ''c1''
       [(''foo'', PStr ''bar''), (AZURE_LOG_ANALYTICS_CONNECTION_STRING, PStr ''lakey'')])
     = Inr [(''foo'', PStr ''bar''), (AZURE_LOG_ANALYTICS_CONNECTION_STRING, PStr ''lakey''),
            (RELAY_SERVER_CONNECTION_STRING, PStr ''relaycs'')] \<and>
   \<not> has_key [(''foo'', PStr ''bar'')] SERVICE_BUS_CONNECTION_STRING \<and>
   get_service_bus_connection_string env_service_bus_missing
       (subscription_id env_service_bus_missing) ''rg'' ''c1'' [] True
     = ([ServiceBusCall ''rg'' ''c1sub1rgservicebus'' [] True],
        Inl (Propagated (HttpResponseError 404))) \<and>
   snd (Update env_service_bus_missing ''rg'' ''c1'' None None None [] [(''foo'', PStr ''bar'')] False) =
     Inl (ResourceNotFoundError ''Service bus not found.'')"
proof -
  let ?ps = "[(RELAY_SERVER_CONNECTION_STRING, PStr ''r''), (SERVICE_BUS_CONNECTION_STRING, PStr ''s'')]"
  let ?ps1 = "[(''foo'', PStr ''bar''), (AZURE_LOG_ANALYTICS_CONNECTION_STRING, PStr ''lakey'')]"
  let ?ps2 = "[(''foo'', PStr ''bar''), (AZURE_LOG_ANALYTICS_CONNECTION_STRING, PStr ''lakey''),
            (RELAY_SERVER_CONNECTION_STRING, PStr ''relaycs'')]"
  have confirm:
    "\<forall>message. user_confirmation env_log_analytics_down False message = None"
    "\<forall>message. user_confirmation env_relay_missing False message = None"
    "\<forall>message. user_confirmation env_service_bus_missing False message = None"
    by (simp_all add: env_log_analytics_down_def env_relay_missing_def env_service_bus_missing_def
          env0_def)
  have h:
    "\<not> has_key ?ps AZURE_LOG_ANALYTICS_CONNECTION_STRING"
    "get_log_analytics_ws_connection_string env_log_analytics_down
         (subscription_id env_log_analytics_down) ''rg'' ''c1'' [] True
       = ([LogAnalyticsCall ''rg'' ''c1sub1rg'' [] True], Inl (Propagated (HttpResponseError 500)))"
    "has_key ?ps RELAY_SERVER_CONNECTION_STRING"
    "has_key ?ps SERVICE_BUS_CONNECTION_STRING"
    "\<not> (has_key ?ps sslKeyPemFile \<and> has_key ?ps sslCertPemFile)"
    "snd (update_log_analytics env_relay_missing ''rg'' ''c1'' [(''foo'', PStr ''bar'')]) = Inr ?ps1"
    "\<not> has_key [(''foo'', PStr ''bar'')] RELAY_SERVER_CONNECTION_STRING"
    "get_relay_connection_str env_relay_missing (subscription_id env_relay_missing) ''rg'' ''c1'' []
         RELAY_HC_AUTH_NAME True
       = ([RelayCall ''rg'' ''c1sub1rgrelay'' ''c1'' [] True],
          Inl (Propagated (ErrorResponseException 404)))"
    "snd (update_log_analytics env_service_bus_missing ''rg'' ''c1'' [(''foo'', PStr ''bar'')]) = Inr ?ps1"
    "snd (update_relay env_service_bus_missing ''rg'' ''c1'' ?ps1) = Inr ?ps2"
    "\<not> has_key [(''foo'', PStr ''bar'')] SERVICE_BUS_CONNECTION_STRING"
    "get_service_bus_connection_string env_service_bus_missing
         (subscription_id env_service_bus_missing) ''rg'' ''c1'' [] True
       = ([ServiceBusCall ''rg'' ''c1sub1rgservicebus'' [] True],
          Inl (Propagated (HttpResponseError 404)))"
    by code_simp+
  show ?thesis
    using confirm h
      Update_lookup_failures [where e = env_log_analytics_down and ps = ?ps and rg = "''rg''"
        and cn = "''c1''" and evs_la = "[LogAnalyticsCall ''rg'' ''c1sub1rg'' [] True]"
        and status_la = 500 and yes = False and au = None and rt = None and ver = None
        and cs = "[]" and ps_la = "[]" and ps_relay = "[]" and evs_relay = "[]" and evs_sb = "[]"
        and status_relay = 0 and status_sb = 0]
      Update_lookup_failures [where e = env_relay_missing and ps = "[(''foo'', PStr ''bar'')]"
        and rg = "''rg''" and cn = "''c1''" and evs_la = "[]"
        and status_la = 0 and yes = False and au = None and rt = None and ver = None
        and cs = "[]" and ps_la = ?ps1 and ps_relay = "[]"
        and evs_relay = "[RelayCall ''rg'' ''c1sub1rgrelay'' ''c1'' [] True]" and evs_sb = "[]"
        and status_relay = 404 and status_sb = 0]
      Update_lookup_failures [where e = env_service_bus_missing and ps = "[(''foo'', PStr ''bar'')]"
        and rg = "''rg''" and cn = "''c1''" and evs_la = "[]"
        and status_la = 0 and yes = False and au = None and rt = None and ver = None
        and cs = "[]" and ps_la = ?ps1 and ps_relay = ?ps2
        and evs_relay = "[]" and evs_sb = "[ServiceBusCall ''rg'' ''c1sub1rgservicebus'' [] True]"
        and status_relay = 0 and status_sb = 404]
    by simp
qed

text \<open>
  Claim C6 as stated fails in both directions. The relay namespace does not exist (status
  404) and \<open>Update\<close> fails with the resource-not-found error, so a not-found failure is
  fatal; the Log Analytics lookup fails with status 500 and \<open>Update\<close> succeeds, so a
  failure other than not-found is not.
\<close>

theorem Update_lookup_failures_counterexample:
  "\<not> has_key [(''foo'', PStr ''bar'')] RELAY_SERVER_CONNECTION_STRING \<and>
   relay env_relay_missing ''rg'' ''c1sub1rgrelay'' ''c1'' [] True = Inl (ErrorResponseException 404) \<and>
   Update env_relay_missing ''rg'' ''c1'' None None None [] [(''foo'', PStr ''bar'')] False =
     ([LogAnalyticsCall ''rg'' ''c1sub1rg'' [] True,
       Info ''Get log analytics connection string succeeded.'',
       RelayCall ''rg'' ''c1sub1rgrelay'' ''c1'' [] True],
      Inl (ResourceNotFoundError ''Relay server not found.'')) \<and>
   \<not> has_key [(RELAY_SERVER_CONNECTION_STRING, PStr ''r''), (SERVICE_BUS_CONNECTION_STRING, PStr ''s'')]
       AZURE_LOG_ANALYTICS_CONNECTION_STRING \<and>
   log_analytics env_log_analytics_down ''rg'' ''c1sub1rg'' [] True = Inl (HttpResponseError 500) \<and>
   \<not> isl (snd (Update env_log_analytics_down ''rg'' ''c1'' None None None []
       [(RELAY_SERVER_CONNECTION_STRING, PStr ''r''), (SERVICE_BUS_CONNECTION_STRING, PStr ''s'')] False))"
  by code_simp

section \<open>How the flags are read\<close>

lemma get_value_absent:
  "\<not> has_key cs k \<Longrightarrow> \<not> has_key ps k \<Longrightarrow> get_value_from_config_protected_config k cs ps = PNone"
  by (simp add: get_value_from_config_protected_config_def dict_get_def has_key_def)

lemma str_lower_is_examples:
  "\<not> str_lower_is PNone ''true''" "\<not> str_lower_is (PStr ''1'') ''true''"
  "\<not> str_lower_is (PStr ''yes'') ''true''" "\<not> str_lower_is (PBool False) ''true''"
  "str_lower_is (PStr ''true'') ''true''" "str_lower_is (PStr ''True'') ''true''"
  "str_lower_is (PStr ''TRUE'') ''true''" "str_lower_is (PBool True) ''true''"
  by code_simp+

lemma validate_config_enable_error:
  "dup_keys cs ps = [] \<Longrightarrow>
   snd (validate_config e cs ps rn) = Inl (InvalidArgumentValueError enable_message) \<longleftrightarrow>
     \<not> str_lower_is (get_value_from_config_protected_config ENABLE_TRAINING cs ps) ''true'' \<and>
     \<not> str_lower_is (get_value_from_config_protected_config ENABLE_INFERENCE cs ps) ''true''"
proof
  assume "dup_keys cs ps = []"
    and "snd (validate_config e cs ps rn) = Inl (InvalidArgumentValueError enable_message)"
  from validate_config_fails [OF this(2)]
  show "\<not> str_lower_is (get_value_from_config_protected_config ENABLE_TRAINING cs ps) ''true'' \<and>
     \<not> str_lower_is (get_value_from_config_protected_config ENABLE_INFERENCE cs ps) ''true''"
    by (auto simp: enable_message_def tls_message_def)
next
  assume "dup_keys cs ps = []"
    and "\<not> str_lower_is (get_value_from_config_protected_config ENABLE_TRAINING cs ps) ''true'' \<and>
     \<not> str_lower_is (get_value_from_config_protected_config ENABLE_INFERENCE cs ps) ''true''"
  then show "snd (validate_config e cs ps rn) = Inl (InvalidArgumentValueError enable_message)"
    by (simp add: validate_config_neither)
qed

lemma validate_config_inference_warning:
  "dup_keys cs ps = [] \<Longrightarrow>
   experimental_warning \<in> set (fst (validate_config e cs ps rn)) \<longleftrightarrow>
     str_lower_is (get_value_from_config_protected_config ENABLE_INFERENCE cs ps) ''true''"
  by (auto simp: validate_config_def Let_def fst_then_do throw_def ret_def emit_def
        split: sum.splits prod.splits)


lemma validate_scoring_fe_settings_tls_iff:
  "snd (validate_scoring_fe_settings cs ps rn) = Inl (InvalidArgumentValueError (tls_message rn)) \<longleftrightarrow>
     \<not> (truthy (dict_get ps sslCertPemFile) \<and> truthy (dict_get ps sslKeyPemFile)) \<and>
     \<not> truthy (get_value_from_config_protected_config SSL_SECRET cs ps) \<and>
     \<not> str_lower_is (get_value_from_config_protected_config allowInsecureConnections cs ps) ''true''"
  by (auto simp: validate_scoring_fe_settings_def Let_def get_value_update_other truthy_py_or_and
        snd_then_do)

lemma validate_scoring_fe_settings_exclusive_iff:
  "(\<exists>m. snd (validate_scoring_fe_settings cs ps rn) = Inl (MutuallyExclusiveArgumentError m)) \<longleftrightarrow>
     ((truthy (dict_get ps sslCertPemFile) \<and> truthy (dict_get ps sslKeyPemFile)) \<or>
      truthy (get_value_from_config_protected_config SSL_SECRET cs ps) \<or>
      str_lower_is (get_value_from_config_protected_config allowInsecureConnections cs ps) ''true'') \<and>
     str_lower_is (get_value_from_config_protected_config privateEndpointNodeport cs ps) ''true'' \<and>
     str_lower_is (get_value_from_config_protected_config privateEndpointILB cs ps) ''true''"
  by (auto simp: validate_scoring_fe_settings_def Let_def get_value_update_other truthy_py_or_and
        snd_then_do)

lemma validate_scoring_fe_settings_result:
  assumes "snd (validate_scoring_fe_settings cs ps rn) = Inr cs'"
  shows "map_of cs' ''clusterPurpose'' =
           Some (PStr (if str_lower_is (get_value_from_config_protected_config
                            inferenceLoadBalancerHA cs ps) ''false''
                       then ''DevTest'' else ''FastProd''))"
    and "map_of cs' ''scoringFe.namespace'' =
           (if str_lower_is (get_value_from_config_protected_config IS_AKS_MIGRATION cs ps) ''true''
            then Some (PStr ''default'') else map_of cs ''scoringFe.namespace'')"
    and "map_of cs' ''scoringFe.serviceType.nodePort'' =
           (if str_lower_is (get_value_from_config_protected_config privateEndpointNodeport cs ps) ''true''
            then Some (PBool True) else map_of cs ''scoringFe.serviceType.nodePort'')"
    and "map_of cs' ''scoringFe.serviceType.internalLoadBalancer'' =
           (if str_lower_is (get_value_from_config_protected_config privateEndpointILB cs ps) ''true''
            then Some (PBool True) else map_of cs ''scoringFe.serviceType.internalLoadBalancer'')"
  using assms
  by (auto simp: validate_scoring_fe_settings_def Let_def get_value_update_other snd_then_do
        update_conv' split: if_splits)

lemma create_log_analytics_gate:
  "\<not> str_lower_is (dict_get_default cs LOG_ANALYTICS_WS_ENABLED (PBool False)) ''true'' \<Longrightarrow>
   create_log_analytics e cs ps s rg cn loc = ([], Inr (cs, ps))"
  "str_lower_is (dict_get_default cs LOG_ANALYTICS_WS_ENABLED (PBool False)) ''true'' \<Longrightarrow>
   \<not> truthy (dict_get cs AZURE_LOG_ANALYTICS_CONNECTION_STRING) \<Longrightarrow>
   \<not> truthy (dict_get ps AZURE_LOG_ANALYTICS_CONNECTION_STRING) \<Longrightarrow>
   hd (fst (create_log_analytics e cs ps s rg cn loc)) = Info ''==== BEGIN LOG ANALYTICS WORKSPACE CREATION ====''"
  by (simp_all add: create_log_analytics_def ret_def then_do_emit)

text \<open>
  Claim C10, as amended. The test of the code is \<open>str(v).lower() == 'true'\<close>, which an
  absent key and any other value (\<open>1\<close>, \<open>yes\<close>) fail. \<open>enableTraining\<close> and
  \<open>enableInference\<close> are read with it (the error for neither, the start of the inference
  checks), and so are \<open>allowInsecureConnections\<close> (the TLS error),
  \<open>privateEndpointNodeport\<close>, \<open>privateEndpointILB\<close> and \<open>isAKSMigration\<close> (the derived
  settings), each on its effective value, and the log-analytics gate \<open>logAnalyticsWS\<close>, on
  its value in the settings alone. \<open>inferenceLoadBalancerHA\<close> is read the other way round:
  the cluster purpose is \<open>DevTest\<close> exactly when the lowercased string form of its
  effective value is \<open>false\<close>, and \<open>FastProd\<close> for an absent key and any other value.
\<close>

theorem flags_read_as_true:
  "(str_lower_is v ''true'' \<longleftrightarrow> lower (py_str v) = ''true'') \<and>
   (\<not> has_key cs k \<and> \<not> has_key ps k \<longrightarrow>
      \<not> str_lower_is (get_value_from_config_protected_config k cs ps) ''true'') \<and>
   \<not> str_lower_is (PStr ''1'') ''true'' \<and> \<not> str_lower_is (PStr ''yes'') ''true'' \<and>
   str_lower_is (PStr ''True'') ''true'' \<and> str_lower_is (PBool True) ''true'' \<and>
   (fst ` set cs \<inter> fst ` set ps = {} \<longrightarrow>
      (snd (validate_config e cs ps rn) = Inl (InvalidArgumentValueError enable_message) \<longleftrightarrow>
         \<not> str_lower_is (get_value_from_config_protected_config ENABLE_TRAINING cs ps) ''true'' \<and>
         \<not> str_lower_is (get_value_from_config_protected_config ENABLE_INFERENCE cs ps) ''true'') \<and>
      (experimental_warning \<in> set (fst (validate_config e cs ps rn)) \<longleftrightarrow>
         str_lower_is (get_value_from_config_protected_config ENABLE_INFERENCE cs ps) ''true'')) \<and>
   (snd (validate_scoring_fe_settings cs ps rn) = Inl (InvalidArgumentValueError (tls_message rn)) \<longleftrightarrow>
      \<not> (truthy (dict_get ps sslCertPemFile) \<and> truthy (dict_get ps sslKeyPemFile)) \<and>
      \<not> truthy (get_value_from_config_protected_config SSL_SECRET cs ps) \<and>
      \<not> str_lower_is (get_value_from_config_protected_config allowInsecureConnections cs ps) ''true'') \<and>
   (snd (validate_scoring_fe_settings cs ps rn) = Inr cs' \<longrightarrow>
      map_of cs' ''scoringFe.serviceType.nodePort'' =
        (if str_lower_is (get_value_from_config_protected_config privateEndpointNodeport cs ps) ''true''
         then Some (PBool True) else map_of cs ''scoringFe.serviceType.nodePort'') \<and>
      map_of cs' ''scoringFe.serviceType.internalLoadBalancer'' =
        (if str_lower_is (get_value_from_config_protected_config privateEndpointILB cs ps) ''true''
         then Some (PBool True) else map_of cs ''scoringFe.serviceType.internalLoadBalancer'') \<and>
      map_of cs' ''scoringFe.namespace'' =
        (if str_lower_is (get_value_from_config_protected_config IS_AKS_MIGRATION cs ps) ''true''
         then Some (PStr ''default'') else map_of cs ''scoringFe.namespace'') \<and>
      map_of cs' ''clusterPurpose'' =
        Some (PStr (if str_lower_is (get_value_from_config_protected_config
                         inferenceLoadBalancerHA cs ps) ''false''
                    then ''DevTest'' else ''FastProd''))) \<and>
   (\<not> str_lower_is (dict_get_default cs LOG_ANALYTICS_WS_ENABLED (PBool False)) ''true'' \<longrightarrow>
      create_log_analytics e cs ps s rg cn loc = ([], Inr (cs, ps))) \<and>
   (str_lower_is (dict_get_default cs LOG_ANALYTICS_WS_ENABLED (PBool False)) ''true'' \<and>
    \<not> truthy (dict_get cs AZURE_LOG_ANALYTICS_CONNECTION_STRING) \<and>
    \<not> truthy (dict_get ps AZURE_LOG_ANALYTICS_CONNECTION_STRING) \<longrightarrow>
      hd (fst (create_log_analytics e cs ps s rg cn loc))
        = Info ''==== BEGIN LOG ANALYTICS WORKSPACE CREATION ===='')"
proof (intro conjI impI)
  show "str_lower_is v ''true'' \<longleftrightarrow> lower (py_str v) = ''true''"
    by (simp add: str_lower_is_def)
next
  assume "\<not> has_key cs k \<and> \<not> has_key ps k"
  then show "\<not> str_lower_is (get_value_from_config_protected_config k cs ps) ''true''"
    by (simp add: get_value_absent str_lower_is_examples)
next
  show "\<not> str_lower_is (PStr ''1'') ''true''" by (rule str_lower_is_examples)
next
  show "\<not> str_lower_is (PStr ''yes'') ''true''" by (rule str_lower_is_examples)
next
  show "str_lower_is (PStr ''True'') ''true''" by (rule str_lower_is_examples)
next
  show "str_lower_is (PBool True) ''true''" by (rule str_lower_is_examples)
next
  assume "fst ` set cs \<inter> fst ` set ps = {}"
  then show "snd (validate_config e cs ps rn) = Inl (InvalidArgumentValueError enable_message) \<longleftrightarrow>
         \<not> str_lower_is (get_value_from_config_protected_config ENABLE_TRAINING cs ps) ''true'' \<and>
         \<not> str_lower_is (get_value_from_config_protected_config ENABLE_INFERENCE cs ps) ''true''"
    by (intro validate_config_enable_error) (simp add: dup_keys_Nil_iff)
next
  assume "fst ` set cs \<inter> fst ` set ps = {}"
  then show "experimental_warning \<in> set (fst (validate_config e cs ps rn)) \<longleftrightarrow>
         str_lower_is (get_value_from_config_protected_config ENABLE_INFERENCE cs ps) ''true''"
    by (intro validate_config_inference_warning) (simp add: dup_keys_Nil_iff)
next
  show "snd (validate_scoring_fe_settings cs ps rn) = Inl (InvalidArgumentValueError (tls_message rn)) \<longleftrightarrow>
      \<not> (truthy (dict_get ps sslCertPemFile) \<and> truthy (dict_get ps sslKeyPemFile)) \<and>
      \<not> truthy (get_value_from_config_protected_config SSL_SECRET cs ps) \<and>
      \<not> str_lower_is (get_value_from_config_protected_config allowInsecureConnections cs ps) ''true''"
    by (rule validate_scoring_fe_settings_tls_iff)
next
  assume a: "snd (validate_scoring_fe_settings cs ps rn) = Inr cs'"
  show "map_of cs' ''scoringFe.serviceType.nodePort'' =
        (if str_lower_is (get_value_from_config_protected_config privateEndpointNodeport cs ps) ''true''
         then Some (PBool True) else map_of cs ''scoringFe.serviceType.nodePort'')"
    by (rule validate_scoring_fe_settings_result [OF a])
  show "map_of cs' ''scoringFe.serviceType.internalLoadBalancer'' =
        (if str_lower_is (get_value_from_config_protected_config privateEndpointILB cs ps) ''true''
         then Some (PBool True) else map_of cs ''scoringFe.serviceType.internalLoadBalancer'')"
    by (rule validate_scoring_fe_settings_result [OF a])
  show "map_of cs' ''scoringFe.namespace'' =
        (if str_lower_is (get_value_from_config_protected_config IS_AKS_MIGRATION cs ps) ''true''
         then Some (PStr ''default'') else map_of cs ''scoringFe.namespace'')"
    by (rule validate_scoring_fe_settings_result [OF a])
  show "map_of cs' ''clusterPurpose'' =
        Some (PStr (if str_lower_is (get_value_from_config_protected_config
                         inferenceLoadBalancerHA cs ps) ''false''
                    then ''DevTest'' else ''FastProd''))"
    by (rule validate_scoring_fe_settings_result [OF a])
next
  assume "\<not> str_lower_is (dict_get_default cs LOG_ANALYTICS_WS_ENABLED (PBool False)) ''true''"
  then show "create_log_analytics e cs ps s rg cn loc = ([], Inr (cs, ps))"
    by (rule create_log_analytics_gate)
next
  assume "str_lower_is (dict_get_default cs LOG_ANALYTICS_WS_ENABLED (PBool False)) ''true'' \<and>
    \<not> truthy (dict_get cs AZURE_LOG_ANALYTICS_CONNECTION_STRING) \<and>
    \<not> truthy (dict_get ps AZURE_LOG_ANALYTICS_CONNECTION_STRING)"
  then show "hd (fst (create_log_analytics e cs ps s rg cn loc))
        = Info ''==== BEGIN LOG ANALYTICS WORKSPACE CREATION ====''"
    by (intro create_log_analytics_gate) simp_all
qed

theorem flags_read_as_true_witness:
  "\<not> has_key [(ENABLE_INFERENCE, PStr ''True''), (allowInsecureConnections, PStr ''TRUE''),
       (privateEndpointNodeport, PStr ''true''), (IS_AKS_MIGRATION, PBool True),
       (inferenceLoadBalancerHA, PStr ''no'')] ENABLE_TRAINING \<and>
   \<not> has_key ([] :: config) ENABLE_TRAINING \<and>
   \<not> str_lower_is (get_value_from_config_protected_config ENABLE_TRAINING
       [(ENABLE_INFERENCE, PStr ''True''), (allowInsecureConnections, PStr ''TRUE''),
        (privateEndpointNodeport, PStr ''true''), (IS_AKS_MIGRATION, PBool True),
        (inferenceLoadBalancerHA, PStr ''no'')] []) ''true'' \<and>
   fst ` set [(ENABLE_INFERENCE, PStr ''True''), (allowInsecureConnections, PStr ''TRUE''),
       (privateEndpointNodeport, PStr ''true''), (IS_AKS_MIGRATION, PBool True),
       (inferenceLoadBalancerHA, PStr ''no'')] \<inter> fst ` set ([] :: config) = {} \<and>
   snd (validate_config env0
       [(ENABLE_INFERENCE, PStr ''True''), (allowInsecureConnections, PStr ''TRUE''),
        (privateEndpointNodeport, PStr ''true''), (IS_AKS_MIGRATION, PBool True),
        (inferenceLoadBalancerHA, PStr ''no'')] [] DEFAULT_RELEASE_NAMESPACE)
     \<noteq> Inl (InvalidArgumentValueError enable_message) \<and>
   experimental_warning \<in> set (fst (validate_config env0
       [(ENABLE_INFERENCE, PStr ''True''), (allowInsecureConnections, PStr ''TRUE''),
        (privateEndpointNodeport, PStr ''true''), (IS_AKS_MIGRATION, PBool True),
        (inferenceLoadBalancerHA, PStr ''no'')] [] DEFAULT_RELEASE_NAMESPACE)) \<and>
   snd (validate_scoring_fe_settings
       [(ENABLE_INFERENCE, PStr ''True''), (allowInsecureConnections, PStr ''TRUE''),
        (privateEndpointNodeport, PStr ''true''), (IS_AKS_MIGRATION, PBool True),
        (inferenceLoadBalancerHA, PStr ''no'')] [] DEFAULT_RELEASE_NAMESPACE) =
     Inr [(ENABLE_INFERENCE, PStr ''True''), (allowInsecureConnections, PStr ''TRUE''),
          (privateEndpointNodeport, PStr ''true''), (IS_AKS_MIGRATION, PStr ''true''),
          (inferenceLoadBalancerHA, PStr ''no''), (''clusterPurpose'', PStr ''FastProd''),
          (''scoringFe.namespace'', PStr ''default''),
          (''scoringFe.serviceType.nodePort'', PBool True)] \<and>
   map_of [(ENABLE_INFERENCE, PStr ''True''), (allowInsecureConnections, PStr ''TRUE''),
          (privateEndpointNodeport, PStr ''true''), (IS_AKS_MIGRATION, PStr ''true''),
          (inferenceLoadBalancerHA, PStr ''no''), (''clusterPurpose'', PStr ''FastProd''),
          (''scoringFe.namespace'', PStr ''default''),
          (''scoringFe.serviceType.nodePort'', PBool True)] ''scoringFe.serviceType.nodePort''
     = Some (PBool True) \<and>
   map_of [(ENABLE_INFERENCE, PStr ''True''), (allowInsecureConnections, PStr ''TRUE''),
          (privateEndpointNodeport, PStr ''true''), (IS_AKS_MIGRATION, PStr ''true''),
          (inferenceLoadBalancerHA, PStr ''no''), (''clusterPurpose'', PStr ''FastProd''),
          (''scoringFe.namespace'', PStr ''default''),
          (''scoringFe.serviceType.nodePort'', PBool True)] ''clusterPurpose''
     = Some (PStr ''FastProd'') \<and>
   \<not> str_lower_is (dict_get_default
       [(ENABLE_INFERENCE, PStr ''True''), (allowInsecureConnections, PStr ''TRUE''),
        (privateEndpointNodeport, PStr ''true''), (IS_AKS_MIGRATION, PBool True),
        (inferenceLoadBalancerHA, PStr ''no'')] LOG_ANALYTICS_WS_ENABLED (PBool False)) ''true'' \<and>
   create_log_analytics env0
       [(ENABLE_INFERENCE, PStr ''True''), (allowInsecureConnections, PStr ''TRUE''),
        (privateEndpointNodeport, PStr ''true''), (IS_AKS_MIGRATION, PBool True),
        (inferenceLoadBalancerHA, PStr ''no'')] [] ''sub1'' ''rg'' ''c1'' ''eastus'' =
     ([], Inr ([(ENABLE_INFERENCE, PStr ''True''), (allowInsecureConnections, PStr ''TRUE''),
        (privateEndpointNodeport, PStr ''true''), (IS_AKS_MIGRATION, PBool True),
        (inferenceLoadBalancerHA, PStr ''no'')], [])) \<and>
   str_lower_is (dict_get_default [(LOG_ANALYTICS_WS_ENABLED, PStr ''True'')]
       LOG_ANALYTICS_WS_ENABLED (PBool False)) ''true'' \<and>
   \<not> truthy (dict_get [(LOG_ANALYTICS_WS_ENABLED, PStr ''True'')] AZURE_LOG_ANALYTICS_CONNECTION_STRING) \<and>
   \<not> truthy (dict_get [] AZURE_LOG_ANALYTICS_CONNECTION_STRING) \<and>
   hd (fst (create_log_analytics env0 [(LOG_ANALYTICS_WS_ENABLED, PStr ''True'')] []
       ''sub1'' ''rg'' ''c1'' ''eastus''))
     = Info ''==== BEGIN LOG ANALYTICS WORKSPACE CREATION ====''"
proof -
  let ?cs = "[(ENABLE_INFERENCE, PStr ''True''), (allowInsecureConnections, PStr ''TRUE''),
       (privateEndpointNodeport, PStr ''true''), (IS_AKS_MIGRATION, PBool True),
       (inferenceLoadBalancerHA, PStr ''no'')]"
  let ?cs' = "[(ENABLE_INFERENCE, PStr ''True''), (allowInsecureConnections, PStr ''TRUE''),
          (privateEndpointNodeport, PStr ''true''), (IS_AKS_MIGRATION, PStr ''true''),
          (inferenceLoadBalancerHA, PStr ''no''), (''clusterPurpose'', PStr ''FastProd''),
          (''scoringFe.namespace'', PStr ''default''),
          (''scoringFe.serviceType.nodePort'', PBool True)]"
  have h:
    "\<not> has_key ?cs ENABLE_TRAINING" "\<not> has_key ([] :: config) ENABLE_TRAINING"
    "\<not> str_lower_is (get_value_from_config_protected_config ENABLE_TRAINING ?cs []) ''true''"
    "str_lower_is (get_value_from_config_protected_config ENABLE_INFERENCE ?cs []) ''true''"
    "snd (validate_scoring_fe_settings ?cs [] DEFAULT_RELEASE_NAMESPACE) = Inr ?cs'"
    "str_lower_is (get_value_from_config_protected_config privateEndpointNodeport ?cs []) ''true''"
    "\<not> str_lower_is (get_value_from_config_protected_config inferenceLoadBalancerHA ?cs []) ''false''"
    "\<not> str_lower_is (dict_get_default ?cs LOG_ANALYTICS_WS_ENABLED (PBool False)) ''true''"
    "str_lower_is (dict_get_default [(LOG_ANALYTICS_WS_ENABLED, PStr ''True'')]
       LOG_ANALYTICS_WS_ENABLED (PBool False)) ''true''"
    "\<not> truthy (dict_get [(LOG_ANALYTICS_WS_ENABLED, PStr ''True'')] AZURE_LOG_ANALYTICS_CONNECTION_STRING)"
    "\<not> truthy (dict_get [] AZURE_LOG_ANALYTICS_CONNECTION_STRING)"
    by code_simp+
  have d: "fst ` set ?cs \<inter> fst ` set ([] :: config) = {}" by simp
  show ?thesis
    using h d
      flags_read_as_true [where cs = ?cs and ps = "[]" and k = ENABLE_TRAINING and v = "PStr ''True''"
        and e = env0 and rn = DEFAULT_RELEASE_NAMESPACE and cs' = ?cs'
        and s = "''sub1''" and rg = "''rg''" and cn = "''c1''" and loc = "''eastus''"]
      flags_read_as_true [where cs = "[(LOG_ANALYTICS_WS_ENABLED, PStr ''True'')]" and ps = "[]"
        and k = ENABLE_TRAINING and v = "PStr ''True''"
        and e = env0 and rn = DEFAULT_RELEASE_NAMESPACE and cs' = "[]"
        and s = "''sub1''" and rg = "''rg''" and cn = "''c1''" and loc = "''eastus''"]
    by simp
qed

text \<open>
  Claim C10 as stated fails for two of the flags. With \<open>inferenceLoadBalancerHA\<close> absent
  the cluster purpose is \<open>FastProd\<close>, as it is for the value \<open>true\<close> and unlike the value
  \<open>false\<close>: an absent key counts as true. And \<open>logAnalyticsWS=true\<close> given in the
  protected settings, its effective value being \<open>true\<close>, does not open the log-analytics
  gate: nothing is provisioned.
\<close>

theorem flags_read_as_true_counterexample:
  "\<not> has_key [(ENABLE_INFERENCE, PStr ''true''), (allowInsecureConnections, PStr ''true'')]
       inferenceLoadBalancerHA \<and>
   \<not> has_key ([] :: config) inferenceLoadBalancerHA \<and>
   validate_scoring_fe_settings
       [(ENABLE_INFERENCE, PStr ''true''), (allowInsecureConnections, PStr ''true'')] []
       DEFAULT_RELEASE_NAMESPACE =
     ([], Inr [(ENABLE_INFERENCE, PStr ''true''), (allowInsecureConnections, PStr ''true''),
               (''clusterPurpose'', PStr ''FastProd'')]) \<and>
   validate_scoring_fe_settings
       [(ENABLE_INFERENCE, PStr ''true''), (allowInsecureConnections, PStr ''true''),
        (inferenceLoadBalancerHA, PStr ''true'')] []
       DEFAULT_RELEASE_NAMESPACE =
     ([], Inr [(ENABLE_INFERENCE, PStr ''true''), (allowInsecureConnections, PStr ''true''),
               (inferenceLoadBalancerHA, PStr ''true''), (''clusterPurpose'', PStr ''FastProd'')]) \<and>
   validate_scoring_fe_settings
       [(ENABLE_INFERENCE, PStr ''true''), (allowInsecureConnections, PStr ''true''),
        (inferenceLoadBalancerHA, PStr ''false'')] []
       DEFAULT_RELEASE_NAMESPACE =
     ([], Inr [(ENABLE_INFERENCE, PStr ''true''), (allowInsecureConnections, PStr ''true''),
               (inferenceLoadBalancerHA, PStr ''false''), (''clusterPurpose'', PStr ''DevTest'')]) \<and>
   get_value_from_config_protected_config LOG_ANALYTICS_WS_ENABLED []
       [(LOG_ANALYTICS_WS_ENABLED, PStr ''true'')] = PStr ''true'' \<and>
   create_log_analytics env0 [] [(LOG_ANALYTICS_WS_ENABLED, PStr ''true'')]
       ''sub1'' ''rg'' ''c1'' ''eastus'' =
     ([], Inr ([], [(LOG_ANALYTICS_WS_ENABLED, PStr ''true'')]))"
  by code_simp

section \<open>Properties of the argument action\<close>

lemma split_token_first:
  "CHR ''='' \<notin> set k \<Longrightarrow> split_token (k @ CHR ''='' # v) = Some (k, v)"
proof -
  assume "CHR ''='' \<notin> set k"
  then have a: "\<And>c. c \<in> set k \<Longrightarrow> c \<noteq> CHR ''=''" by auto
  show ?thesis
    by (simp add: split_token_def takeWhile_append2 [OF a] dropWhile_append2 [OF a])
qed

lemma set_first_appearances [simp]: "set (first_appearances xs) = set xs"
  by (induction xs rule: first_appearances.induct) auto

lemma distinct_first_appearances [simp]: "distinct (first_appearances xs)"
  by (induction xs rule: first_appearances.induct) auto

lemma find_filter_neq:
  "\<not> P x \<Longrightarrow> find P (filter (\<lambda>y. y \<noteq> x) xs) = find P xs"
  by (induction xs) auto

lemma find_first_appearances: "find P (first_appearances xs) = find P xs"
  by (induction xs rule: first_appearances.induct) (auto simp: find_filter_neq)

lemma dict_get_default_update:
  "dict_get_default (AList.update k v d) k' dflt = (if k' = k then v else dict_get_default d k' dflt)"
  by (simp add: dict_get_default_def update_conv')

lemma group_tokens_pairs:
  "map split_token vals = map Some kvs \<Longrightarrow>
   \<exists>props'. group_tokens vals props = Some props' \<and>
     map fst props' = map fst props
        @ first_appearances (filter (\<lambda>k. k \<notin> fst ` set props) (map fst kvs)) \<and>
     (\<forall>k. dict_get_default props' k [] = dict_get_default props k [] @ values_of_key k kvs)"
proof (induction kvs arbitrary: vals props)
  case Nil
  then show ?case by (simp add: values_of_key_def)
next
  case (Cons kv kvs)
  obtain k v where kv: "kv = (k, v)" by (cases kv)
  from Cons.prems obtain x vals' where vals: "vals = x # vals'" and x: "split_token x = Some (k, v)"
    and rest: "map split_token vals' = map Some kvs"
    using kv by (cases vals) auto
  let ?props1 = "AList.update k (dict_get_default props k [] @ [v]) props"
  from Cons.IH [OF rest, of ?props1] obtain props' where
    g: "group_tokens vals' ?props1 = Some props'" and
    keys: "map fst props' = map fst ?props1
        @ first_appearances (filter (\<lambda>k. k \<notin> fst ` set ?props1) (map fst kvs))" and
    vs: "\<forall>k'. dict_get_default props' k' [] = dict_get_default ?props1 k' [] @ values_of_key k' kvs"
    by blast
  have g': "group_tokens vals props = Some props'"
    using vals x g by simp
  have dom1: "fst ` set ?props1 = insert k (fst ` set props)"
    using dom_update [of k "dict_get_default props k [] @ [v]" props]
    by (simp add: dom_map_of_conv_image_fst)
  have keys': "map fst props' = map fst props
        @ first_appearances (filter (\<lambda>k. k \<notin> fst ` set props) (map fst (kv # kvs)))"
  proof (cases "k \<in> fst ` set props")
    case True
    then have "fst ` set ?props1 = fst ` set props" using dom1 by auto
    moreover have "map fst ?props1 = map fst props" using True by (simp add: update_keys)
    ultimately show ?thesis using keys kv True by simp
  next
    case False
    have "map fst ?props1 = map fst props @ [k]" using False by (simp add: update_keys)
    moreover have "filter (\<lambda>k'. k' \<notin> fst ` set ?props1) (map fst kvs)
        = filter (\<lambda>y. y \<noteq> k) (filter (\<lambda>k'. k' \<notin> fst ` set props) (map fst kvs))"
      unfolding dom1 filter_filter by (rule filter_cong) auto
    ultimately show ?thesis using keys kv False by simp
  qed
  have vs': "\<forall>k'. dict_get_default props' k' [] = dict_get_default props k' [] @ values_of_key k' (kv # kvs)"
    using vs kv by (auto simp: dict_get_default_update values_of_key_def)
  show ?case using g' keys' vs' by blast
qed

lemma project_conditions_permitted:
  "\<forall>k \<in> fst ` set rest. permitted (lower k) \<and> dict_get_default props k [] \<noteq> [] \<Longrightarrow>
   \<exists>d'. project_conditions props rest d = Inr d' \<and>
     (\<forall>name. map_of d' name =
        (case filter (\<lambda>k. lower k = name) (map fst rest) of
           [] \<Rightarrow> map_of d name
         | k # ks \<Rightarrow> Some (entry name (dict_get_default props (last (k # ks)) []))))"
proof (induction rest arbitrary: d)
  case Nil
  then show ?case by simp
next
  case (Cons kx rest)
  obtain k x where kx: "kx = (k, x)" by (cases kx)
  have pk: "permitted (lower k)" and ne: "dict_get_default props k [] \<noteq> []"
    and rest: "\<forall>k \<in> fst ` set rest. permitted (lower k) \<and> dict_get_default props k [] \<noteq> []"
    using Cons.prems kx by auto
  obtain v0 vs where v: "dict_get_default props k [] = v0 # vs"
    using ne by (cases "dict_get_default props k []") auto
  let ?d1 = "AList.update (lower k) (entry (lower k) (dict_get_default props k [])) d"
  have step: "project_conditions props (kx # rest) d = project_conditions props rest ?d1"
    using pk v kx by (auto simp: permitted_def entry_def Let_def)
  from Cons.IH [OF rest, of ?d1] obtain d' where
    r: "project_conditions props rest ?d1 = Inr d'" and
    m: "\<forall>name. map_of d' name =
        (case filter (\<lambda>k. lower k = name) (map fst rest) of
           [] \<Rightarrow> map_of ?d1 name
         | k # ks \<Rightarrow> Some (entry name (dict_get_default props (last (k # ks)) [])))"
    by blast
  have "\<forall>name. map_of d' name =
        (case filter (\<lambda>k. lower k = name) (map fst (kx # rest)) of
           [] \<Rightarrow> map_of d name
         | k # ks \<Rightarrow> Some (entry name (dict_get_default props (last (k # ks)) [])))"
    using m kx by (auto simp: update_conv' split: list.splits)
  then show ?case using step r by simp
qed

lemma project_conditions_unsupported:
  "\<forall>k \<in> fst ` set rest. dict_get_default props k [] \<noteq> [] \<Longrightarrow>
   find (\<lambda>k. \<not> permitted (lower k)) (map fst rest) = Some k \<Longrightarrow>
   project_conditions props rest d = Inl (unsupported_key k)"
proof (induction rest arbitrary: d)
  case Nil
  then show ?case by simp
next
  case (Cons kx rest)
  obtain k' x where kx: "kx = (k', x)" by (cases kx)
  obtain v0 vs where v: "dict_get_default props k' [] = v0 # vs"
    using Cons.prems(1) kx by (cases "dict_get_default props k' []") auto
  show ?case
  proof (cases "permitted (lower k')")
    case True
    then have f: "find (\<lambda>k. \<not> permitted (lower k)) (map fst rest) = Some k"
      using Cons.prems(2) kx by simp
    have r: "\<forall>k \<in> fst ` set rest. dict_get_default props k [] \<noteq> []"
      using Cons.prems(1) by auto
    show ?thesis
      using True v kx Cons.IH [OF r f] by (auto simp: permitted_def Let_def)
  next
    case False
    then have "k = k'" using Cons.prems(2) kx by simp
    then show ?thesis using False kx by (auto simp: permitted_def Let_def)
  qed
qed

lemma values_of_key_nonempty:
  "k \<in> fst ` set kvs \<Longrightarrow> values_of_key k kvs \<noteq> []"
  by (auto simp: values_of_key_def filter_empty_conv)

lemma get_action_grouped:
  assumes "map split_token vals = map Some kvs"
  shows "\<exists>props. get_action vals option_string = project_conditions props props [] \<and>
           map fst props = first_appearances (map fst kvs) \<and>
           (\<forall>k. dict_get_default props k [] = values_of_key k kvs)"
proof -
  from group_tokens_pairs [OF assms, of "[]"] obtain props where
    g: "group_tokens vals [] = Some props" and
    keys: "map fst props = first_appearances (map fst kvs)" and
    vs: "\<forall>k. dict_get_default props k [] = values_of_key k kvs"
    by (auto simp: dict_get_default_def)
  show ?thesis using g keys vs by (auto simp: get_action_def)
qed

lemma get_action_permitted:
  assumes "map split_token vals = map Some kvs"
    and "\<forall>k \<in> fst ` set kvs. permitted (lower k)"
  shows "\<exists>d. get_action vals option_string = Inr d \<and>
           (\<forall>name. map_of d name =
              (case filter (\<lambda>k. lower k = name) (first_appearances (map fst kvs)) of
                 [] \<Rightarrow> None
               | k # ks \<Rightarrow>
                   Some (if name = ''values'' then Multi (values_of_key (last (k # ks)) kvs)
                         else Single (hd (values_of_key (last (k # ks)) kvs)))))"
proof -
  from get_action_grouped [OF assms(1)] obtain props where
    g: "get_action vals option_string = project_conditions props props []" and
    keys: "map fst props = first_appearances (map fst kvs)" and
    vs: "\<forall>k. dict_get_default props k [] = values_of_key k kvs"
    by blast
  have "fst ` set props = fst ` set kvs"
    using keys by (metis set_first_appearances set_map)
  then have "\<forall>k \<in> fst ` set props. permitted (lower k) \<and> dict_get_default props k [] \<noteq> []"
    using assms(2) vs by (simp add: values_of_key_nonempty)
  from project_conditions_permitted [OF this, of "[]"] obtain d where
    "project_conditions props props [] = Inr d" and
    "\<forall>name. map_of d name =
        (case filter (\<lambda>k. lower k = name) (map fst props) of
           [] \<Rightarrow> map_of [] name
         | k # ks \<Rightarrow> Some (entry name (dict_get_default props (last (k # ks)) [])))"
    by blast
  then show ?thesis
    using g keys vs by (auto simp: entry_def split: list.splits)
qed

lemma get_action_unsupported:
  assumes "map split_token vals = map Some kvs"
    and "find (\<lambda>k. \<not> permitted (lower k)) (map fst kvs) = Some k0"
  shows "get_action vals option_string = Inl (unsupported_key k0)"
proof -
  from get_action_grouped [OF assms(1)] obtain props where
    g: "get_action vals option_string = project_conditions props props []" and
    keys: "map fst props = first_appearances (map fst kvs)" and
    vs: "\<forall>k. dict_get_default props k [] = values_of_key k kvs"
    by blast
  have "fst ` set props = fst ` set kvs"
    using keys by (metis set_first_appearances set_map)
  then have ne: "\<forall>k \<in> fst ` set props. dict_get_default props k [] \<noteq> []"
    using vs by (simp add: values_of_key_nonempty)
  have "find (\<lambda>k. \<not> permitted (lower k)) (map fst props) = Some k0"
    using assms(2) keys by (simp add: find_first_appearances)
  from project_conditions_unsupported [OF ne this] show ?thesis using g by simp
qed

lemma single_spelling:
  assumes "\<forall>k \<in> set keys. \<forall>k' \<in> set keys. lower k = lower k' \<longrightarrow> k = k'"
    and "filter (\<lambda>k. lower k = name) (first_appearances keys) = k # ks"
  shows "ks = []" and "k \<in> set keys" and "lower k = name"
    and "\<forall>k' \<in> set keys. lower k' = name \<longleftrightarrow> k' = k"
proof -
  have d: "distinct (k # ks)"
    using assms(2) distinct_first_appearances [of keys] by (metis distinct_filter)
  have mem: "set (k # ks) \<subseteq> {k' \<in> set keys. lower k' = name}"
    using assms(2) by (metis (mono_tags, lifting) mem_Collect_eq set_filter set_first_appearances subsetI)
  show k: "k \<in> set keys" and l: "lower k = name" using mem by auto
  show "ks = []"
  proof (cases ks)
    case Nil
    then show ?thesis .
  next
    case (Cons k' ks')
    then have "k' \<in> set keys" "lower k' = name" "k' \<noteq> k" using mem d by auto
    then show ?thesis using assms(1) k l by blast
  qed
  show "\<forall>k' \<in> set keys. lower k' = name \<longleftrightarrow> k' = k"
    using assms(1) k l by blast
qed

lemma get_action_refines_spec:
  assumes "map split_token vals = map Some kvs"
    and "\<forall>k \<in> fst ` set kvs. permitted (lower k)"
    and "\<forall>k \<in> fst ` set kvs. \<forall>k' \<in> fst ` set kvs. lower k = lower k' \<longrightarrow> k = k'"
  shows "\<exists>d. get_action vals option_string = Inr d \<and> map_of d = spec_conditions kvs"
proof -
  from get_action_permitted [OF assms(1,2)] obtain d where
    g: "get_action vals option_string = Inr d" and
    m: "\<forall>name. map_of d name =
              (case filter (\<lambda>k. lower k = name) (first_appearances (map fst kvs)) of
                 [] \<Rightarrow> None
               | k # ks \<Rightarrow>
                   Some (if name = ''values'' then Multi (values_of_key (last (k # ks)) kvs)
                         else Single (hd (values_of_key (last (k # ks)) kvs))))"
    by blast
  have "map_of d name = spec_conditions kvs name" for name
  proof (cases "filter (\<lambda>k. lower k = name) (first_appearances (map fst kvs))")
    case Nil
    then have "\<forall>k \<in> fst ` set kvs. lower k \<noteq> name"
      by (metis (mono_tags, lifting) filter_empty_conv set_first_appearances set_map)
    then have "values_of_lowered name kvs = []"
      by (auto simp: values_of_lowered_def filter_empty_conv)
    then show ?thesis using m Nil by (simp add: spec_conditions_def)
  next
    case (Cons k ks)
    have c: "\<forall>k \<in> set (map fst kvs). \<forall>k' \<in> set (map fst kvs). lower k = lower k' \<longrightarrow> k = k'"
      using assms(3) by simp
    note s = single_spelling [OF c Cons]
    have "filter (\<lambda>kv. lower (fst kv) = name) kvs = filter (\<lambda>kv. fst kv = k) kvs"
      using s(4) by (intro filter_cong) auto
    then have eq: "values_of_lowered name kvs = values_of_key k kvs"
      by (simp add: values_of_lowered_def values_of_key_def)
    have "k \<in> fst ` set kvs" using s(2) by simp
    then obtain v vs where v: "values_of_key k kvs = v # vs"
      using values_of_key_nonempty [of k kvs] by (cases "values_of_key k kvs") auto
    have "permitted name" using assms(2) s(2,3) by auto
    then show ?thesis
      using m Cons s(1) eq v by (auto simp: spec_conditions_def permitted_def)
  qed
  then show ?thesis using g by auto
qed

text \<open>
  Claim C9, as amended. A token is split at its first \<open>=\<close> only. For every list of
  tokens that split into key and value and whose keys are all permitted up to letter
  case, the values are grouped by the key as it is written, and the record holds, for
  each of \<open>field\<close>, \<open>operator\<close> and \<open>values\<close>, what the group of the last spelling of that
  name gives (spellings in the order of their first appearance): its first value for
  \<open>field\<close> and \<open>operator\<close>, all its values for \<open>values\<close>. When keys that agree up to letter
  case are spelled alike, this is the record of the specification, grouped by lowercased
  key. When some key is not permitted, the first such key raises the error that
  enumerates the permitted keys.
\<close>

theorem get_action_conditions:
  "(CHR ''='' \<notin> set k \<longrightarrow> split_token (k @ CHR ''='' # v) = Some (k, v)) \<and>
   (map split_token vals = map Some kvs \<and> (\<forall>k \<in> fst ` set kvs. permitted (lower k)) \<longrightarrow>
      (\<exists>d. get_action vals option_string = Inr d \<and>
         (\<forall>name. map_of d name =
            (case filter (\<lambda>k. lower k = name) (first_appearances (map fst kvs)) of
               [] \<Rightarrow> None
             | k # ks \<Rightarrow>
                 Some (if name = ''values'' then Multi (values_of_key (last (k # ks)) kvs)
                       else Single (hd (values_of_key (last (k # ks)) kvs))))))) \<and>
   (map split_token vals = map Some kvs \<and> (\<forall>k \<in> fst ` set kvs. permitted (lower k)) \<and>
    (\<forall>k \<in> fst ` set kvs. \<forall>k' \<in> fst ` set kvs. lower k = lower k' \<longrightarrow> k = k') \<longrightarrow>
      (\<exists>d. get_action vals option_string = Inr d \<and> map_of d = spec_conditions kvs)) \<and>
   (map split_token vals = map Some kvs \<and>
    find (\<lambda>k. \<not> permitted (lower k)) (map fst kvs) = Some key \<longrightarrow>
      get_action vals option_string =
        Inl (CLIError (''Unsupported Key '' @ key @
          '' is provided for parameter conditions. All possible keys are: field, operator, values'')))"
proof (intro conjI impI)
  assume "CHR ''='' \<notin> set k"
  then show "split_token (k @ CHR ''='' # v) = Some (k, v)"
    by (rule split_token_first)
next
  assume "map split_token vals = map Some kvs \<and> (\<forall>k \<in> fst ` set kvs. permitted (lower k))"
  then show "\<exists>d. get_action vals option_string = Inr d \<and>
         (\<forall>name. map_of d name =
            (case filter (\<lambda>k. lower k = name) (first_appearances (map fst kvs)) of
               [] \<Rightarrow> None
             | k # ks \<Rightarrow>
                 Some (if name = ''values'' then Multi (values_of_key (last (k # ks)) kvs)
                       else Single (hd (values_of_key (last (k # ks)) kvs)))))"
    by (intro get_action_permitted) simp_all
next
  assume "map split_token vals = map Some kvs \<and> (\<forall>k \<in> fst ` set kvs. permitted (lower k)) \<and>
    (\<forall>k \<in> fst ` set kvs. \<forall>k' \<in> fst ` set kvs. lower k = lower k' \<longrightarrow> k = k')"
  then show "\<exists>d. get_action vals option_string = Inr d \<and> map_of d = spec_conditions kvs"
    by (intro get_action_refines_spec) simp_all
next
  assume "map split_token vals = map Some kvs \<and>
    find (\<lambda>k. \<not> permitted (lower k)) (map fst kvs) = Some key"
  then have "get_action vals option_string = Inl (unsupported_key key)"
    using get_action_unsupported [of vals kvs key option_string] by blast
  then show "get_action vals option_string =
        Inl (CLIError (''Unsupported Key '' @ key @
          '' is provided for parameter conditions. All possible keys are: field, operator, values''))"
    by (simp add: unsupported_key_def)
qed

theorem get_action_conditions_witness:
  "CHR ''='' \<notin> set ''values'' \<and>
   split_token (''values'' @ CHR ''='' # ''a=b'') = Some (''values'', ''a=b'') \<and>
   map split_token [''Field=severity'', ''operator=Equals'', ''values=Sev0'', ''values=a=b'']
     = map Some [(''Field'', ''severity''), (''operator'', ''Equals''), (''values'', ''Sev0''),
                 (''values'', ''a=b'')] \<and>
   list_all (\<lambda>k. permitted (lower k))
     (map fst [(''Field'', ''severity''), (''operator'', ''Equals''), (''values'', ''Sev0''),
               (''values'', ''a=b'')]) \<and>
   list_all (\<lambda>k. list_all (\<lambda>k'. lower k = lower k' \<longrightarrow> k = k')
       (map fst [(''Field'', ''severity''), (''operator'', ''Equals''), (''values'', ''Sev0''),
                 (''values'', ''a=b'')]))
     (map fst [(''Field'', ''severity''), (''operator'', ''Equals''), (''values'', ''Sev0''),
               (''values'', ''a=b'')]) \<and>
   (\<exists>d. get_action [''Field=severity'', ''operator=Equals'', ''values=Sev0'', ''values=a=b'']
           ''--conditions'' = Inr d \<and>
        map_of d = spec_conditions [(''Field'', ''severity''), (''operator'', ''Equals''),
                     (''values'', ''Sev0''), (''values'', ''a=b'')]) \<and>
   spec_conditions [(''Field'', ''severity''), (''operator'', ''Equals''),
       (''values'', ''Sev0''), (''values'', ''a=b'')] ''values'' = Some (Multi [''Sev0'', ''a=b'']) \<and>
   map split_token [''field=a'', ''colour=red''] = map Some [(''field'', ''a''), (''colour'', ''red'')] \<and>
   find (\<lambda>k. \<not> permitted (lower k)) (map fst [(''field'', ''a''), (''colour'', ''red'')])
     = Some ''colour'' \<and>
   get_action [''field=a'', ''colour=red''] ''--conditions'' =
     Inl (CLIError (''Unsupported Key '' @ ''colour'' @
       '' is provided for parameter conditions. All possible keys are: field, operator, values''))"
proof -
  let ?kvs = "[(''Field'', ''severity''), (''operator'', ''Equals''), (''values'', ''Sev0''),
                 (''values'', ''a=b'')]"
  have s: "map split_token [''Field=severity'', ''operator=Equals'', ''values=Sev0'', ''values=a=b'']
      = map Some ?kvs"
    "map split_token [''field=a'', ''colour=red''] = map Some [(''field'', ''a''), (''colour'', ''red'')]"
    "find (\<lambda>k. \<not> permitted (lower k)) (map fst [(''field'', ''a''), (''colour'', ''red'')])
      = Some ''colour''"
    "spec_conditions ?kvs ''values'' = Some (Multi [''Sev0'', ''a=b''])"
    "CHR ''='' \<notin> set ''values''"
    by code_simp+
  have lp: "list_all (\<lambda>k. permitted (lower k)) (map fst ?kvs)"
    by code_simp
  have lc: "list_all (\<lambda>k. list_all (\<lambda>k'. lower k = lower k' \<longrightarrow> k = k') (map fst ?kvs))
      (map fst ?kvs)"
    by code_simp
  have p: "\<forall>k \<in> fst ` set ?kvs. permitted (lower k)"
    using lp unfolding list_all_iff by simp
  have c: "\<forall>k \<in> fst ` set ?kvs. \<forall>k' \<in> fst ` set ?kvs. lower k = lower k' \<longrightarrow> k = k'"
    using lc unfolding list_all_iff by simp
  show ?thesis
    using s lp lc p c
      get_action_conditions [where k = "''values''" and v = "''a=b''"
        and vals = "[''Field=severity'', ''operator=Equals'', ''values=Sev0'', ''values=a=b'']"
        and kvs = ?kvs and option_string = "''--conditions''" and key = "''colour''"]
      get_action_conditions [where k = "''values''" and v = "''a=b''"
        and vals = "[''field=a'', ''colour=red'']"
        and kvs = "[(''field'', ''a''), (''colour'', ''red'')]"
        and option_string = "''--conditions''" and key = "''colour''"]
    by blast
qed

text \<open>
  Claim C9 as stated fails when one key is written in two ways: \<open>field\<close> and \<open>FIELD\<close> are
  two groups, and the later one replaces the earlier, so the record holds \<open>b\<close> under
  \<open>field\<close> where the first value of the lowercased group is \<open>a\<close>, and \<open>2\<close> alone under
  \<open>values\<close> where the lowercased group has \<open>1\<close> and \<open>2\<close>.
\<close>

theorem get_action_conditions_counterexample:
  "map split_token [''field=a'', ''FIELD=b'', ''values=1'', ''VALUES=2'']
     = map Some [(''field'', ''a''), (''FIELD'', ''b''), (''values'', ''1''), (''VALUES'', ''2'')] \<and>
   get_action [''field=a'', ''FIELD=b'', ''values=1'', ''VALUES=2''] ''--conditions''
     = Inr [(''field'', Single ''b''), (''values'', Multi [''2''])] \<and>
   spec_conditions [(''field'', ''a''), (''FIELD'', ''b''), (''values'', ''1''), (''VALUES'', ''2'')]
       ''field'' = Some (Single ''a'') \<and>
   spec_conditions [(''field'', ''a''), (''FIELD'', ''b''), (''values'', ''1''), (''VALUES'', ''2'')]
       ''values'' = Some (Multi [''1'', ''2''])"
  by code_simp

end
